theory Spec2Isabelle
  imports Complex_Main "HOL-Library.Sublist" "HOL-Library.Monad_Syntax"
    "HOL-Library.Char_ord" "HOL-Library.List_Lexorder"
begin

section \<open>Python strings\<close>

text \<open>
  Python \<open>str\<close> values are modelled as \<open>string\<close>: a \<open>char\<close> is the code point of the same
  number, so the strings covered are those of code points below 256 (ASCII and the
  Latin-1 supplement).  The helpers below are the \<open>str\<close> methods the sources call, with
  Python's behaviour on all of these characters.
\<close>

text \<open>\<open>sub in s\<close> on strings: \<open>sub\<close> occurs in \<open>s\<close> as a contiguous run.\<close>

abbreviation str_in :: "string \<Rightarrow> string \<Rightarrow> bool" where
  "str_in sub s \<equiv> sublist sub s"

text \<open>
  \<open>c.lower()\<close> for one character: the letters \<open>A\<close> to \<open>Z\<close> and the upper-case letters of the
  Latin-1 supplement (\<open>0xC0\<close> to \<open>0xDE\<close> without the multiplication sign \<open>0xD7\<close>) go to
  their lower-case forms, \<open>0x20\<close> higher; every other character is kept.
\<close>

definition lower_char :: "char \<Rightarrow> char" where
  "lower_char c =
     (case map_of
        (zip (''ABCDEFGHIJKLMNOPQRSTUVWXYZ''
                @ [CHR 0xC0, CHR 0xC1, CHR 0xC2, CHR 0xC3, CHR 0xC4, CHR 0xC5, CHR 0xC6, CHR 0xC7,
                   CHR 0xC8, CHR 0xC9, CHR 0xCA, CHR 0xCB, CHR 0xCC, CHR 0xCD, CHR 0xCE, CHR 0xCF,
                   CHR 0xD0, CHR 0xD1, CHR 0xD2, CHR 0xD3, CHR 0xD4, CHR 0xD5, CHR 0xD6, CHR 0xD8,
                   CHR 0xD9, CHR 0xDA, CHR 0xDB, CHR 0xDC, CHR 0xDD, CHR 0xDE])
             (''abcdefghijklmnopqrstuvwxyz''
                @ [CHR 0xE0, CHR 0xE1, CHR 0xE2, CHR 0xE3, CHR 0xE4, CHR 0xE5, CHR 0xE6, CHR 0xE7,
                   CHR 0xE8, CHR 0xE9, CHR 0xEA, CHR 0xEB, CHR 0xEC, CHR 0xED, CHR 0xEE, CHR 0xEF,
                   CHR 0xF0, CHR 0xF1, CHR 0xF2, CHR 0xF3, CHR 0xF4, CHR 0xF5, CHR 0xF6, CHR 0xF8,
                   CHR 0xF9, CHR 0xFA, CHR 0xFB, CHR 0xFC, CHR 0xFD, CHR 0xFE])) c of
        Some l \<Rightarrow> l
      | None \<Rightarrow> c)"

text \<open>\<open>s.lower()\<close>\<close>

definition str_lower :: "string \<Rightarrow> string" where
  "str_lower s = map lower_char s"

text \<open>\<open>sep.join(xs)\<close>\<close>

fun str_join :: "string \<Rightarrow> string list \<Rightarrow> string" where
  "str_join sep [] = []"
| "str_join sep [x] = x"
| "str_join sep (x # y # ys) = x @ sep @ str_join sep (y # ys)"

text \<open>\<open>s.replace(c, '')\<close> for a one-character \<open>c\<close>: every occurrence is removed.\<close>

definition str_remove :: "char \<Rightarrow> string \<Rightarrow> string" where
  "str_remove c s = filter (\<lambda>x. x \<noteq> c) s"

text \<open>\<open>s.split(sep)\<close> for a one-character separator: never empty, \<open>''''.split(sep) = ['''']\<close>.\<close>

fun str_split :: "char \<Rightarrow> string \<Rightarrow> string list" where
  "str_split sep [] = [[]]"
| "str_split sep (c # cs) =
     (if c = sep then [] # str_split sep cs
      else (case str_split sep cs of
              [] \<Rightarrow> [[c]]
            | p # ps \<Rightarrow> (c # p) # ps))"

text \<open>\<open>s.endswith(t)\<close>\<close>

definition str_endswith :: "string \<Rightarrow> string \<Rightarrow> bool" where
  "str_endswith s t = suffix t s"

definition digit_char :: "nat \<Rightarrow> char" where
  "digit_char d = ''0123456789'' ! d"

definition is_digit :: "char \<Rightarrow> bool" where
  "is_digit c = (c \<in> set ''0123456789'')"

text \<open>\<open>str(n)\<close> for a Python \<open>int\<close> (unbounded, so \<open>int\<close> in HOL).\<close>

function str_nat :: "nat \<Rightarrow> string" where
  "str_nat n = (if n < 10 then [digit_char n] else str_nat (n div 10) @ [digit_char (n mod 10)])"
  by pat_completeness auto
termination
  by (relation "measure id") auto

declare str_nat.simps [simp del]

definition str_int :: "int \<Rightarrow> string" where
  "str_int i = (if i < 0 then CHR ''-'' # str_nat (nat (- i)) else str_nat (nat i))"

text \<open>
  Python \<open>float\<close> values that are compared with each other and with thresholds
  (engagement rates, the configured band) are modelled by the real number they denote:
  every finite float is a rational, and \<open><\<close>, \<open><=\<close> on finite floats agree with the order of
  the reals.  \<open>f"{x:.2f}"\<close> prints the exact value rounded to two decimals, ties to even.
\<close>

definition round_half_even :: "real \<Rightarrow> int" where
  "round_half_even x =
     (let f = \<lfloor>x\<rfloor>; d = x - of_int f in
      if d < 1 / 2 then f else if 1 / 2 < d then f + 1 else if even f then f else f + 1)"

definition fmt_2f :: "real \<Rightarrow> string" where
  "fmt_2f x =
     (let n = nat (round_half_even (\<bar>x\<bar> * 100)) in
      (if x < 0 then ''-'' else []) @ str_nat (n div 100) @ ''.''
        @ [digit_char (n mod 100 div 10), digit_char (n mod 10)])"

section \<open>Records of the data model\<close>

text \<open>
  The dictionary \<open>profile_data\<close> that \<open>ScrapingEngine.get_profile_data\<close> builds: it always
  holds these thirteen keys (each is initialised before any extraction), so the
  \<open>.get(key, default)\<close> reads of the filters never take their default.
  \<open>profile_pic_url\<close> is \<open>None\<close> when the image element has no \<open>src\<close> attribute.
\<close>

record profile_data =
  username :: string
  profile_url :: string
  follower_count :: int
  following_count :: int
  post_count :: int
  bio :: string
  location :: string
  is_verified :: bool
  is_private :: bool
  profile_pic_url :: "string option"
  has_active_story :: bool
  last_post_date :: "string option"
  engagement_rate :: real

text \<open>
  \<open>hunter_v7.UserProfile\<close>, a dataclass of nineteen fields, none with a default.  The
  fields carry the prefix \<open>up_\<close> here, since a record's field names are global.
\<close>

record UserProfile =
  up_username :: string
  up_follower_count :: int
  up_following_count :: int
  up_post_count :: int
  up_bio :: string
  up_profile_url :: string
  up_has_active_story :: bool
  up_location :: string
  up_is_verified :: bool
  up_is_private :: bool
  up_profile_pic_url :: "string option"
  up_last_post_date :: "string option"
  up_engagement_rate :: real
  up_estimated_gender :: string
  up_bio_language :: string
  up_account_age_estimate :: string
  up_reason_for_selection :: string
  up_source_hvt :: string
  up_discovery_timestamp :: string

text \<open>
  \<open>HunterOrchestrator.user_filters\<close>, as \<open>interactive_configuration\<close> stores it.
\<close>

record user_filters =
  min_followers :: int
  max_followers :: int
  min_posts :: int
  include_keywords :: "string list"
  exclude_keywords :: "string list"
  seed_hashtags :: "string list"
  max_depth :: int
  max_profiles :: int

section \<open>LocationValidator\<close>

definition usa_keywords :: "string list" where
  "usa_keywords = [
     ''alabama'', ''al'', ''alaska'', ''ak'', ''arizona'', ''az'', ''arkansas'', ''ar'',
     ''california'', ''ca'', ''colorado'', ''co'', ''connecticut'', ''ct'', ''delaware'', ''de'',
     ''florida'', ''fl'', ''georgia'', ''ga'', ''hawaii'', ''hi'', ''idaho'', ''id'',
     ''illinois'', ''il'', ''indiana'', ''in'', ''iowa'', ''ia'', ''kansas'', ''ks'',
     ''kentucky'', ''ky'', ''louisiana'', ''la'', ''maine'', ''me'', ''maryland'', ''md'',
     ''massachusetts'', ''ma'', ''michigan'', ''mi'', ''minnesota'', ''mn'', ''mississippi'', ''ms'',
     ''missouri'', ''mo'', ''montana'', ''mt'', ''nebraska'', ''ne'', ''nevada'', ''nv'',
     ''new hampshire'', ''nh'', ''new jersey'', ''nj'', ''new mexico'', ''nm'', ''new york'', ''ny'',
     ''north carolina'', ''nc'', ''north dakota'', ''nd'', ''ohio'', ''oh'', ''oklahoma'', ''ok'',
     ''oregon'', ''or'', ''pennsylvania'', ''pa'', ''rhode island'', ''ri'', ''south carolina'', ''sc'',
     ''south dakota'', ''sd'', ''tennessee'', ''tn'', ''texas'', ''tx'', ''utah'', ''ut'',
     ''vermont'', ''vt'', ''virginia'', ''va'', ''washington'', ''wa'', ''west virginia'', ''wv'',
     ''wisconsin'', ''wi'', ''wyoming'', ''wy'',
     ''new york city'', ''nyc'', ''los angeles'', ''chicago'', ''houston'', ''phoenix'',
     ''philadelphia'', ''san antonio'', ''san diego'', ''dallas'', ''san jose'', ''austin'',
     ''jacksonville'', ''fort worth'', ''columbus'', ''charlotte'', ''san francisco'',
     ''indianapolis'', ''seattle'', ''denver'', ''washington dc'', ''boston'', ''nashville'',
     ''miami'', ''atlanta'', ''vegas'', ''las vegas'', ''detroit'', ''portland'', ''memphis'',
     ''usa'', ''united states'', ''america'', ''us'', ''american'',
     ''puerto rico'', ''pr'', ''guam'', ''virgin islands'', ''american samoa'']"

definition non_usa_indicators :: "string list" where
  "non_usa_indicators = [
     ''uk'', ''london'', ''england'', ''britain'', ''canada'', ''toronto'', ''vancouver'',
     ''australia'', ''sydney'', ''melbourne'', ''germany'', ''berlin'', ''france'', ''paris'',
     ''italy'', ''spain'', ''mexico'', ''brazil'', ''india'', ''mumbai'', ''delhi'',
     ''japan'', ''tokyo'', ''china'', ''beijing'', ''russia'', ''moscow'']"

definition ambiguous_cities :: "string list" where
  "ambiguous_cities = [''springfield'', ''madison'', ''franklin'', ''georgetown'', ''clinton'']"

text \<open>
  The loop over \<open>ambiguous_cities\<close>: the first city found in the text decides, by whether
  any USA keyword occurs in the text; \<open>None\<close> when the loop ends without a \<open>return\<close>.
\<close>

fun ambiguous_scan :: "string \<Rightarrow> string list \<Rightarrow> (bool \<times> string) option" where
  "ambiguous_scan combined_text [] = None"
| "ambiguous_scan combined_text (city # cities) =
     (if str_in city combined_text then
        (if list_ex (\<lambda>state. str_in state combined_text) usa_keywords
         then Some (True, ''Ambiguous city ('' @ city @ '') with USA context'')
         else Some (False, ''Ambiguous city ('' @ city @ '') without USA context''))
      else ambiguous_scan combined_text cities)"

definition is_usa_location :: "string \<Rightarrow> string \<Rightarrow> bool \<times> string" where
  "is_usa_location bio_text location_field =
     (let combined_text = str_lower (bio_text @ '' '' @ location_field) in
      case find (\<lambda>indicator. str_in indicator combined_text) non_usa_indicators of
        Some indicator \<Rightarrow> (False, ''Non-USA location detected: '' @ indicator)
      | None \<Rightarrow>
         (let usa_matches = filter (\<lambda>keyword. str_in keyword combined_text) usa_keywords in
          if usa_matches \<noteq> [] then
            (True, ''USA location confirmed: '' @ str_join '', '' (take 3 usa_matches))
          else
            (case ambiguous_scan combined_text ambiguous_cities of
               Some r \<Rightarrow> r
             | None \<Rightarrow> (False, ''No clear USA location indicators found''))))"

section \<open>BioAnalyzer\<close>

text \<open>
  The two library calls of the analyzer are parameters of the model: TextBlob's language
  detector and VADER's compound polarity score.  \<open>None\<close> stands for a raised exception,
  which both callers catch.  Floats that are only compared (the polarity score, the
  engagement rate) are the reals they denote; the literals \<open>0.05\<close> and \<open>0.1\<close> are written
  as the decimals, which compare with every double as the nearest doubles do.
\<close>

record nlp =
  textblob_detect_language :: "string \<Rightarrow> string option"
  vader_compound :: "string \<Rightarrow> real option"

record bio_analysis =
  language :: string
  sentiment :: string
  has_commercial_intent :: bool
  estimated_gender :: string
  age_indicators :: "string list"
  topics :: "string list"

definition detect_language :: "nlp \<Rightarrow> string \<Rightarrow> string" where
  "detect_language lib txt =
     (case textblob_detect_language lib txt of
        Some l \<Rightarrow> l
      | None \<Rightarrow>
         (let english_words = [''the'', ''and'', ''or'', ''but'', ''in'', ''on'', ''at'', ''to'', ''for'', ''with''];
              english_count = length (filter (\<lambda>word. str_in word (str_lower txt)) english_words)
          in if 2 < english_count then ''en'' else ''unknown''))"

definition analyze_sentiment :: "nlp \<Rightarrow> string \<Rightarrow> string" where
  "analyze_sentiment lib txt =
     (case vader_compound lib txt of
        Some compound \<Rightarrow>
          (if 5 / 100 \<le> compound then ''positive''
           else if compound \<le> - (5 / 100) then ''negative''
           else ''neutral'')
      | None \<Rightarrow> ''neutral'')"

definition commercial_keywords :: "string list" where
  "commercial_keywords = [
     ''link in bio'', ''linktree'', ''dm for collab'', ''business inquiries'',
     ''sponsored'', ''promo code'', ''discount'', ''shop now'', ''buy now'',
     ''affiliate'', ''partnership'', ''brand ambassador'', ''influencer'',
     ''onlyfans'', ''premium'', ''exclusive content'', ''subscribe'']"

definition detect_commercial_intent :: "string \<Rightarrow> bool" where
  "detect_commercial_intent b =
     (let bio_lower = str_lower b in list_ex (\<lambda>keyword. str_in keyword bio_lower) commercial_keywords)"

definition female_indicators :: "string list" where
  "female_indicators = [''she/her'', ''girl'', ''woman'', ''mom'', ''mother'', ''wife'', ''daughter'',
     ''sister'', ''queen'', ''goddess'', ''beauty'', ''makeup'', ''fashion'']"

definition male_indicators :: "string list" where
  "male_indicators = [''he/him'', ''guy'', ''man'', ''dad'', ''father'', ''husband'', ''son'',
     ''brother'', ''king'', ''fitness'', ''gym'', ''sports'']"

definition estimate_gender :: "string \<Rightarrow> string" where
  "estimate_gender b =
     (let bio_lower = str_lower b;
          female_score = length (filter (\<lambda>indicator. str_in indicator bio_lower) female_indicators);
          male_score = length (filter (\<lambda>indicator. str_in indicator bio_lower) male_indicators)
      in if male_score < female_score then ''female''
         else if female_score < male_score then ''male''
         else ''unknown'')"

text \<open>
  The characters that \<open>\\w\<close> matches in a \<open>str\<close> pattern: the underscore and what
  \<open>str.isalnum\<close> accepts, which in the Latin-1 supplement are the letters, the two ordinal
  indicators, the micro sign, the superscript digits and the three fractions.
\<close>

definition is_word_char :: "char \<Rightarrow> bool" where
  "is_word_char c =
     (c \<in> set (''abcdefghijklmnopqrstuvwxyzABCDEFGHIJKLMNOPQRSTUVWXYZ0123456789_''
                @ [CHR 0xAA, CHR 0xB2, CHR 0xB3, CHR 0xB5, CHR 0xB9, CHR 0xBA, CHR 0xBC, CHR 0xBD,
                   CHR 0xBE, CHR 0xC0, CHR 0xC1, CHR 0xC2, CHR 0xC3, CHR 0xC4, CHR 0xC5, CHR 0xC6,
                   CHR 0xC7, CHR 0xC8, CHR 0xC9, CHR 0xCA, CHR 0xCB, CHR 0xCC, CHR 0xCD, CHR 0xCE,
                   CHR 0xCF, CHR 0xD0, CHR 0xD1, CHR 0xD2, CHR 0xD3, CHR 0xD4, CHR 0xD5, CHR 0xD6,
                   CHR 0xD8, CHR 0xD9, CHR 0xDA, CHR 0xDB, CHR 0xDC, CHR 0xDD, CHR 0xDE, CHR 0xDF,
                   CHR 0xE0, CHR 0xE1, CHR 0xE2, CHR 0xE3, CHR 0xE4, CHR 0xE5, CHR 0xE6, CHR 0xE7,
                   CHR 0xE8, CHR 0xE9, CHR 0xEA, CHR 0xEB, CHR 0xEC, CHR 0xED, CHR 0xEE, CHR 0xEF,
                   CHR 0xF0, CHR 0xF1, CHR 0xF2, CHR 0xF3, CHR 0xF4, CHR 0xF5, CHR 0xF6, CHR 0xF8,
                   CHR 0xF9, CHR 0xFA, CHR 0xFB, CHR 0xFC, CHR 0xFD, CHR 0xFE, CHR 0xFF]))"

text \<open>
  \<open>re.findall(r'\b(\d{2})\b', bio)\<close>: the scan goes left to right and resumes after each
  match.  The flag says whether the character before the current position is a word
  character.
\<close>

fun find_two_digits :: "bool \<Rightarrow> string \<Rightarrow> string list" where
  "find_two_digits prev_word (a # b # rest) =
     (if \<not> prev_word \<and> is_digit a \<and> is_digit b
          \<and> (case rest of [] \<Rightarrow> True | c # _ \<Rightarrow> \<not> is_word_char c)
      then [a, b] # find_two_digits True rest
      else find_two_digits (is_word_char a) (b # rest))"
| "find_two_digits prev_word rest = []"

text \<open>
  \<open>re.findall(pre + r'(\d{4})', bio, re.IGNORECASE)\<close> for a literal lower-case \<open>pre\<close>: the
  four digits of every match, scanning left to right and resuming after each match.
\<close>

fun find_year_after :: "string \<Rightarrow> string \<Rightarrow> string list" where
  "find_year_after pre [] = []"
| "find_year_after pre (c # cs) =
     (let n = length pre; year = take 4 (drop n (c # cs)) in
      if str_lower (take n (c # cs)) = pre \<and> length year = 4 \<and> list_all is_digit year
      then year # find_year_after pre (drop (n + 3) cs)
      else find_year_after pre cs)"

definition detect_age_indicators :: "string \<Rightarrow> string list" where
  "detect_age_indicators b =
     find_two_digits False b @ find_year_after ''born in '' b @ find_year_after ''class of '' b"

definition topic_keywords :: "(string \<times> string list) list" where
  "topic_keywords = [
     (''fitness'', [''gym'', ''workout'', ''fitness'', ''health'', ''yoga'', ''trainer'']),
     (''fashion'', [''fashion'', ''style'', ''outfit'', ''designer'', ''model'']),
     (''food'', [''food'', ''cooking'', ''chef'', ''restaurant'', ''recipe'']),
     (''travel'', [''travel'', ''adventure'', ''explore'', ''wanderlust'', ''vacation'']),
     (''tech'', [''tech'', ''developer'', ''coding'', ''startup'', ''innovation'']),
     (''art'', [''art'', ''artist'', ''creative'', ''design'', ''photography'']),
     (''music'', [''music'', ''musician'', ''singer'', ''band'', ''concert'']),
     (''business'', [''entrepreneur'', ''business'', ''ceo'', ''founder'', ''startup''])]"

definition extract_topics :: "string \<Rightarrow> string list" where
  "extract_topics b =
     (let bio_lower = str_lower b in
      map fst (filter (\<lambda>(topic, keywords). list_ex (\<lambda>keyword. str_in keyword bio_lower) keywords)
                 topic_keywords))"

definition default_bio_analysis :: bio_analysis where
  "default_bio_analysis =
     \<lparr>language = ''unknown'', sentiment = ''neutral'', has_commercial_intent = False,
      estimated_gender = ''unknown'', age_indicators = [], topics = []\<rparr>"

definition analyze_bio :: "nlp \<Rightarrow> string \<Rightarrow> bio_analysis" where
  "analyze_bio lib b =
     (if b = [] then default_bio_analysis
      else \<lparr>language = detect_language lib b,
            sentiment = analyze_sentiment lib b,
            has_commercial_intent = detect_commercial_intent b,
            estimated_gender = estimate_gender b,
            age_indicators = detect_age_indicators b,
            topics = extract_topics b\<rparr>)"

section \<open>ProfileFilter\<close>

text \<open>
  The fields \<open>ProfileFilter.__init__\<close> reads from the configuration file.  The object's
  \<open>exclude_keywords\<close> (stripped and lower-cased entries of the configured list) is named
  \<open>config_exclude_keywords\<close> here, apart from the user's list of the same name.
\<close>

record ProfileFilter =
  min_engagement_rate :: real
  max_engagement_rate :: real
  prefer_female :: bool
  require_profile_pic :: bool
  config_exclude_keywords :: "string list"

text \<open>Truth value of \<open>profile_data.get('profile_pic_url')\<close>: \<open>None\<close> and \<open>''\<close> are false.\<close>

definition truthy_str :: "string option \<Rightarrow> bool" where
  "truthy_str v = (case v of None \<Rightarrow> False | Some s \<Rightarrow> s \<noteq> [])"

definition follower_range_reason :: "profile_data \<Rightarrow> user_filters \<Rightarrow> string" where
  "follower_range_reason pd uf =
     ''Follower count ('' @ str_int (follower_count pd) @ '') outside range ''
       @ str_int (min_followers uf) @ ''-'' @ str_int (max_followers uf)"

definition engagement_reason :: "real \<Rightarrow> string" where
  "engagement_reason rate =
     ''Engagement rate ('' @ fmt_2f rate @ ''%) outside normal range (possible bot)''"

definition should_target_profile ::
  "ProfileFilter \<Rightarrow> nlp \<Rightarrow> profile_data \<Rightarrow> user_filters \<Rightarrow> bool \<times> string" where
  "should_target_profile pf lib pd uf =
     (if \<not> (min_followers uf \<le> follower_count pd \<and> follower_count pd \<le> max_followers uf) then
        (False, follower_range_reason pd uf)
      else if post_count pd < min_posts uf then
        (False, ''Post count ('' @ str_int (post_count pd) @ '') below minimum ''
                  @ str_int (min_posts uf))
      else if is_verified pd then (False, ''Verified account (excluded by preference)'')
      else if is_private pd then (False, ''Private profile'')
      else
        (let (is_usa, location_reason) = is_usa_location (bio pd) (location pd) in
         if \<not> is_usa then (False, ''Location check failed: '' @ location_reason)
         else if \<not> has_active_story pd then (False, ''No active story found'')
         else if require_profile_pic pf \<and> \<not> truthy_str (profile_pic_url pd) then
           (False, ''No profile picture'')
         else
           (let reasons1 = [''USA location: '' @ location_reason, ''Active story confirmed''];
                analysis = analyze_bio lib (bio pd);
                reasons2 =
                  (if language analysis \<noteq> ''en'' \<and> language analysis \<noteq> ''unknown''
                   then reasons1 @ [''Bio language: '' @ language analysis] else reasons1)
            in
            if has_commercial_intent analysis then (False, ''Commercial intent detected in bio'')
            else
              (case find (\<lambda>keyword. str_in keyword (str_lower (bio pd)))
                      (config_exclude_keywords pf) of
                 Some keyword \<Rightarrow> (False, ''Excluded keyword found: '' @ keyword)
               | None \<Rightarrow>
                  (let rate = engagement_rate pd in
                   if 0 < rate
                        \<and> \<not> (min_engagement_rate pf \<le> rate \<and> rate \<le> max_engagement_rate pf)
                   then (False, engagement_reason rate)
                   else
                     (let reasons3 =
                            (if 0 < rate
                             then reasons2 @ [''Normal engagement rate: '' @ fmt_2f rate @ ''%'']
                             else reasons2);
                          reasons4 =
                            (if prefer_female pf \<and> estimated_gender analysis = ''female''
                             then reasons3 @ [''Female profile (preferred)'']
                             else if estimated_gender analysis \<noteq> ''unknown''
                             then reasons3 @ [''Gender: '' @ estimated_gender analysis]
                             else reasons3)
                      in (True, ''All criteria met: '' @ str_join ''; '' reasons4)))))))"

section \<open>ProfileValidator\<close>

record validation_result =
  is_valid :: bool
  warnings :: "string list"
  errors :: "string list"
  quality_score :: int

definition suspicious_keywords :: "string list" where
  "suspicious_keywords = [''bot'', ''fake'', ''spam'', ''test account'']"

text \<open>
  \<open>validate_profile_data\<close>: the four required fields are tested for truth
  (\<open>not profile_data.get(field)\<close>), so an empty string and a zero count are "missing".
\<close>

definition validate_profile_data :: "profile_data \<Rightarrow> validation_result" where
  "validate_profile_data pd =
     (let missing =
            (if username pd = [] then [''username''] else [])
            @ (if follower_count pd = 0 then [''follower_count''] else [])
            @ (if post_count pd = 0 then [''post_count''] else [])
            @ (if bio pd = [] then [''bio''] else []);
          errs = map (\<lambda>field. ''Missing required field: '' @ field) missing;
          score1 = 100 - 20 * int (length missing);
          (warns2, score2) =
            (if follower_count pd = 0 then ([''Zero follower count''], score1 - 10)
             else if 10000000 < follower_count pd
             then ([''Unusually high follower count (possible celebrity)''], score1 - 5)
             else ([], score1));
          (warns3, score3) =
            (if 20 < engagement_rate pd
             then (warns2 @ [''Very high engagement rate (possible bot activity)''], score2 - 15)
             else if engagement_rate pd < 1 / 10 \<and> 1000 < follower_count pd
             then (warns2 @ [''Very low engagement rate (possible inactive account)''], score2 - 10)
             else (warns2, score2));
          (warns4, score4) =
            (if length (bio pd) < 10 then (warns3 @ [''Very short bio''], score3 - 5)
             else (warns3, score3));
          (warns5, score5) =
            (if list_ex (\<lambda>keyword. str_in keyword (str_lower (bio pd))) suspicious_keywords
             then (warns4 @ [''Suspicious keywords in bio''], score4 - 10)
             else (warns4, score4))
      in \<lparr>is_valid = (errs = []), warnings = warns5, errors = errs, quality_score = score5\<rparr>)"

text \<open>\<open>HunterOrchestrator.validate_and_score_profile\<close>\<close>

definition validate_and_score_profile :: "profile_data \<Rightarrow> bool \<times> string list" where
  "validate_and_score_profile pd =
     (let validation = validate_profile_data pd in
      if \<not> is_valid validation then (False, errors validation)
      else if quality_score validation < 70 then (True, warnings validation)
      else (True, []))"

text \<open>
  \<open>HunterOrchestrator.apply_all_filters\<close>: the user's include and exclude keywords are
  checked first, then \<open>ProfileFilter.should_target_profile\<close> runs.
\<close>

definition apply_all_filters ::
  "ProfileFilter \<Rightarrow> nlp \<Rightarrow> user_filters \<Rightarrow> profile_data \<Rightarrow> bool \<times> string" where
  "apply_all_filters pf lib uf pd =
     (let bio_lower = str_lower (bio pd) in
      if include_keywords uf \<noteq> []
           \<and> \<not> list_ex (\<lambda>k. str_in (str_lower k) bio_lower) (include_keywords uf)
      then (False, ''Does not contain required keywords.'')
      else
        (case find (\<lambda>k. str_in (str_lower k) bio_lower) (exclude_keywords uf) of
           Some k \<Rightarrow> (False, ''Contains excluded keyword: '' @ k)
         | None \<Rightarrow> should_target_profile pf lib pd uf))"

section \<open>Exceptions\<close>

text \<open>The exceptions that reach a caller in the modelled code.\<close>

datatype error = TypeError | ValueError | IndexError | OverflowError

section \<open>ProxyManager\<close>

record ProxyManager =
  proxies :: "string list"
  current_proxy_index :: nat
  failed_proxies :: "string set"

text \<open>
  A proxy in "requests format" is a dictionary with the keys \<open>http\<close> and \<open>https\<close>, or the
  empty dictionary; it is modelled as an association list in insertion order.
\<close>

type_synonym proxy_dict = "(string \<times> string) list"

definition dict_get :: "proxy_dict \<Rightarrow> string \<Rightarrow> string \<Rightarrow> string" where
  "dict_get d k dflt = (case map_of d k of Some v \<Rightarrow> v | None \<Rightarrow> dflt)"

definition format_proxy :: "string \<Rightarrow> proxy_dict" where
  "format_proxy proxy =
     (case str_split CHR '':'' proxy of
        ip # port # user # pass # _ \<Rightarrow>
          (let proxy_url = ''http://'' @ user @ '':'' @ pass @ ''@'' @ ip @ '':'' @ port
           in [(''http'', proxy_url), (''https'', proxy_url)])
      | ip # port # _ \<Rightarrow>
          (let proxy_url = ''http://'' @ ip @ '':'' @ port
           in [(''http'', proxy_url), (''https'', proxy_url)])
      | _ \<Rightarrow> [])"

text \<open>
  The \<open>while attempts < len(self.proxies)\<close> loop of \<open>get_next_proxy\<close>.  Reading
  \<open>self.proxies[self.current_proxy_index]\<close> out of range raises \<open>IndexError\<close>.
\<close>

function next_proxy_loop ::
  "ProxyManager \<Rightarrow> nat \<Rightarrow> (error + proxy_dict option) \<times> ProxyManager" where
  "next_proxy_loop pm attempts =
     (if attempts < length (proxies pm) then
        (if length (proxies pm) \<le> current_proxy_index pm then (Inl IndexError, pm)
         else
           (let proxy = proxies pm ! current_proxy_index pm;
                pm' = pm\<lparr>current_proxy_index :=
                           (current_proxy_index pm + 1) mod length (proxies pm)\<rparr>
            in if proxy \<notin> failed_proxies pm then (Inr (Some (format_proxy proxy)), pm')
               else next_proxy_loop pm' (attempts + 1)))
      else (Inr None, pm))"
  by pat_completeness auto
termination
  by (relation "measure (\<lambda>(pm, attempts). length (proxies pm) - attempts)") auto

declare next_proxy_loop.simps [simp del]

definition get_next_proxy :: "ProxyManager \<Rightarrow> (error + proxy_dict option) \<times> ProxyManager" where
  "get_next_proxy pm = (if proxies pm = [] then (Inr None, pm) else next_proxy_loop pm 0)"

text \<open>
  \<open>mark_proxy_failed(proxy)\<close>: \<open>if proxy:\<close> is false for \<open>None\<close> and for the empty
  dictionary; otherwise the value under \<open>http\<close> (the formatted URL) joins the failed set.
\<close>

definition mark_proxy_failed :: "proxy_dict option \<Rightarrow> ProxyManager \<Rightarrow> ProxyManager" where
  "mark_proxy_failed proxy pm =
     (case proxy of
        None \<Rightarrow> pm
      | Some d \<Rightarrow>
          (if d = [] then pm
           else pm\<lparr>failed_proxies := insert (dict_get d ''http'' []) (failed_proxies pm)\<rparr>))"

section \<open>SessionManager\<close>

record session_data =
  seen_profiles :: "string set"
  discovered_hvts :: "UserProfile list"
  current_depth :: int
  processing_queue :: "string list"
  session_start :: string
  total_profiles_scanned :: int
  errors_encountered :: int

text \<open>
  The session file.  \<open>json.dump\<close> and \<open>json.load\<close> are taken as inverse on the values the
  session holds (strings, integers, booleans, floats, \<open>None\<close>, lists and dictionaries of
  them); what the model keeps of the file is its JSON object, in which the seen profiles
  are a list and the key \<open>seen_profiles\<close> may be absent (a file written by hand).
  \<open>Missing\<close>: \<open>os.path.exists\<close> is false.  \<open>Unreadable\<close>: \<open>open\<close>, \<open>json.load\<close> or the
  conversion of the loaded value raises, which \<open>load_session\<close> catches.
\<close>

record session_json =
  json_seen_profiles :: "string list option"
  json_discovered_hvts :: "UserProfile list"
  json_current_depth :: int
  json_processing_queue :: "string list"
  json_session_start :: string
  json_total_profiles_scanned :: int
  json_errors_encountered :: int

datatype session_file = Missing | Unreadable | Json session_json

text \<open>The dictionary of a new session; \<open>now\<close> is \<open>datetime.now().isoformat()\<close>.\<close>

definition new_session :: "string \<Rightarrow> session_data" where
  "new_session now =
     \<lparr>seen_profiles = {}, discovered_hvts = [], current_depth = 0, processing_queue = [],
      session_start = now, total_profiles_scanned = 0, errors_encountered = 0\<rparr>"

definition load_session :: "session_file \<Rightarrow> string \<Rightarrow> session_data" where
  "load_session file now =
     (case file of
        Json data \<Rightarrow>
          \<lparr>seen_profiles =
             set (case json_seen_profiles data of None \<Rightarrow> [] | Some xs \<Rightarrow> xs),
           discovered_hvts = json_discovered_hvts data,
           current_depth = json_current_depth data,
           processing_queue = json_processing_queue data,
           session_start = json_session_start data,
           total_profiles_scanned = json_total_profiles_scanned data,
           errors_encountered = json_errors_encountered data\<rparr>
      | _ \<Rightarrow> new_session now)"

text \<open>
  \<open>save_session\<close>.  \<open>listing\<close> is \<open>list(s)\<close> on a Python set, whose order the language
  leaves open; \<open>writable\<close> is false when opening the file for writing raises, which
  \<open>save_session\<close> catches and logs.
\<close>

definition save_session ::
  "(string set \<Rightarrow> string list) \<Rightarrow> bool \<Rightarrow> session_data \<Rightarrow> session_file \<Rightarrow> session_file" where
  "save_session listing writable sd file =
     (if writable then
        Json \<lparr>json_seen_profiles = Some (listing (seen_profiles sd)),
              json_discovered_hvts = discovered_hvts sd,
              json_current_depth = current_depth sd,
              json_processing_queue = processing_queue sd,
              json_session_start = session_start sd,
              json_total_profiles_scanned = total_profiles_scanned sd,
              json_errors_encountered = errors_encountered sd\<rparr>
      else file)"

definition add_seen_profile :: "string \<Rightarrow> session_data \<Rightarrow> session_data" where
  "add_seen_profile u sd = sd\<lparr>seen_profiles := insert u (seen_profiles sd)\<rparr>"

definition is_profile_seen :: "string \<Rightarrow> session_data \<Rightarrow> bool" where
  "is_profile_seen u sd = (u \<in> seen_profiles sd)"

text \<open>\<open>add_hvt\<close> appends \<open>asdict(hvt)\<close>, the dataclass as a dictionary of the same fields.\<close>

definition add_hvt :: "UserProfile \<Rightarrow> session_data \<Rightarrow> session_data" where
  "add_hvt hvt sd = sd\<lparr>discovered_hvts := discovered_hvts sd @ [hvt]\<rparr>"

definition increment_scanned :: "session_data \<Rightarrow> session_data" where
  "increment_scanned sd = sd\<lparr>total_profiles_scanned := total_profiles_scanned sd + 1\<rparr>"

definition increment_errors :: "session_data \<Rightarrow> session_data" where
  "increment_errors sd = sd\<lparr>errors_encountered := errors_encountered sd + 1\<rparr>"

section \<open>ScrapingEngine\<close>

text \<open>
  The browser behind Selenium is outside the repository.  Its state is a type parameter
  \<open>'w\<close>, and each group of WebDriver calls of the engine is one operation on it.  A call
  that can raise returns \<open>Raises\<close> (or \<open>False\<close>) in that case; the engine's \<open>try\<close> blocks decide
  what happens then.  Delays (\<open>human_delay\<close>) and log lines change nothing that is
  modelled.
\<close>

datatype 'a attempt = Raises | Returns 'a

datatype fetch_outcome = Found profile_data | NotFound | FetchError

record 'w driver =
  initialize_driver :: "'w \<Rightarrow> bool \<times> 'w"
  check_login_status :: "'w \<Rightarrow> bool \<times> 'w"
  login_to_instagram :: "'w \<Rightarrow> bool \<times> 'w"
  cleanup_driver :: "'w \<Rightarrow> 'w"
  get_profiles_from_hashtags :: "string list \<Rightarrow> 'w \<Rightarrow> string list \<times> 'w"
  load_profile :: "string \<Rightarrow> 'w \<Rightarrow> fetch_outcome \<times> 'w"
  open_followers_dialog :: "string \<Rightarrow> 'w \<Rightarrow> bool \<times> 'w"
  find_follower_elements :: "'w \<Rightarrow> string option attempt list attempt \<times> 'w"
  scroll_dialog :: "'w \<Rightarrow> bool \<times> 'w"
  close_followers_dialog :: "'w \<Rightarrow> 'w"

subsection \<open>Floats in \<open>parse_count\<close>\<close>

text \<open>
  \<open>parse_count\<close> computes \<open>int(float(s) * 1000)\<close>, and there the rounding of IEEE 754
  binary64 arithmetic decides the result, so these floats are modelled exactly: a finite
  float is a sign, a mantissa and a binary exponent, of value \<open>m * 2^e\<close>; both
  \<open>float(s)\<close> and the product round to the nearest double, ties to even, with gradual
  underflow (the smallest exponent is -1074) and overflow to infinity.  The sign of a zero
  is kept in the flag and plays no part in what follows.
\<close>

datatype pyfloat = Finite bool nat int | Infinite bool | NaN

text \<open>\<open>n.bit_length()\<close>\<close>

function bit_length :: "nat \<Rightarrow> nat" where
  "bit_length n = (if n = 0 then 0 else Suc (bit_length (n div 2)))"
  by pat_completeness auto
termination
  by (relation "measure id") auto

declare bit_length.simps [simp del]

text \<open>The floor of the binary logarithm of \<open>num / den\<close>, for positive \<open>num\<close> and \<open>den\<close>.\<close>

definition floor_log2 :: "nat \<Rightarrow> nat \<Rightarrow> int" where
  "floor_log2 num den =
     (let l = int (bit_length num) - int (bit_length den) in
      if (if 0 \<le> l then den * 2 ^ nat l \<le> num else den \<le> num * 2 ^ nat (- l))
      then l else l - 1)"

text \<open>\<open>num / (den * 2^e)\<close> rounded to the nearest natural number, ties to even.\<close>

definition round_scaled :: "nat \<Rightarrow> nat \<Rightarrow> int \<Rightarrow> nat" where
  "round_scaled num den e =
     (let n = (if 0 \<le> e then num else num * 2 ^ nat (- e));
          d = (if 0 \<le> e then den * 2 ^ nat e else den);
          q = n div d;
          r = n mod d
      in if 2 * r < d then q else if d < 2 * r then q + 1 else if even q then q else q + 1)"

text \<open>
  The double nearest to \<open>num / den * 2^s\<close>, as mantissa and exponent: 53 bits of
  precision; \<open>None\<close> when the rounded value is \<open>2^1024\<close> or more (infinity).
\<close>

definition round_double :: "nat \<Rightarrow> nat \<Rightarrow> int \<Rightarrow> (nat \<times> int) option" where
  "round_double num den s =
     (if num = 0 then Some (0, 0)
      else
        (let e = max (floor_log2 num den + s - 52) (- 1074);
             m = round_scaled num den (e - s)
         in if 971 < e \<or> (e = 971 \<and> 2 ^ 53 \<le> m) then None else Some (m, e)))"

text \<open>
  The whitespace that \<open>int\<close> and \<open>float\<close> strip from both ends of a string: space, tab,
  line feed, vertical tab, form feed, carriage return, and from the Latin-1 supplement
  next line (\<open>0x85\<close>) and no-break space (\<open>0xA0\<close>).  The separators \<open>0x1C\<close> to \<open>0x1F\<close>,
  which \<open>str.isspace\<close> accepts, are not stripped by the two conversions.
\<close>

definition is_space :: "char \<Rightarrow> bool" where
  "is_space c =
     (c \<in> set [CHR '' '', CHR 0x09, CHR 0x0A, CHR 0x0B, CHR 0x0C, CHR 0x0D, CHR 0x85, CHR 0xA0])"

definition str_strip :: "string \<Rightarrow> string" where
  "str_strip s = rev (dropWhile is_space (rev (dropWhile is_space s)))"

text \<open>
  The longest prefix of the form \<open>digit (["_"] digit)*\<close>: its digits, and the rest of the
  string.
\<close>

fun take_digits :: "string \<Rightarrow> string \<times> string" where
  "take_digits [] = ([], [])"
| "take_digits (c # cs) =
     (if is_digit c then
        (case cs of
           u # d # rest \<Rightarrow>
             (if u = CHR ''_'' \<and> is_digit d
              then (case take_digits (d # rest) of (ds, r) \<Rightarrow> (c # ds, r))
              else (case take_digits cs of (ds, r) \<Rightarrow> (c # ds, r)))
         | _ \<Rightarrow> (case take_digits cs of (ds, r) \<Rightarrow> (c # ds, r)))
      else ([], c # cs))"

definition digit_value :: "char \<Rightarrow> nat" where
  "digit_value c = (of_char c :: nat) - 48"

definition nat_of_digits :: "string \<Rightarrow> nat" where
  "nat_of_digits ds = foldl (\<lambda>n c. 10 * n + digit_value c) 0 ds"

text \<open>An optional sign: whether it is \<open>-\<close>, and the rest.\<close>

fun take_sign :: "string \<Rightarrow> bool \<times> string" where
  "take_sign [] = (False, [])"
| "take_sign (c # cs) =
     (if c = CHR ''-'' then (True, cs) else if c = CHR ''+'' then (False, cs)
      else (False, c # cs))"

text \<open>
  \<open>int(s)\<close> in base ten; \<open>None\<close> stands for \<open>ValueError\<close>.  CPython (3.11 and the patched
  releases before it) refuses more than 4300 digits by default.
\<close>

definition int_max_str_digits :: nat where
  "int_max_str_digits = 4300"

definition py_int :: "string \<Rightarrow> int option" where
  "py_int s =
     (case take_sign (str_strip s) of (negative, body) \<Rightarrow>
        (case take_digits body of (ds, rest) \<Rightarrow>
           if ds = [] \<or> rest \<noteq> [] \<or> int_max_str_digits < length ds then None
           else Some (if negative then - int (nat_of_digits ds) else int (nat_of_digits ds))))"

text \<open>The exponent part of a float literal, or nothing; \<open>None\<close> when malformed.\<close>

definition parse_exponent :: "string \<Rightarrow> int option" where
  "parse_exponent r =
     (case r of
        [] \<Rightarrow> Some 0
      | c # r1 \<Rightarrow>
          (if c = CHR ''e'' \<or> c = CHR ''E'' then
             (case take_sign r1 of (negative, r2) \<Rightarrow>
                (case take_digits r2 of (ds, rest) \<Rightarrow>
                   if ds = [] \<or> rest \<noteq> [] then None
                   else Some (if negative then - int (nat_of_digits ds)
                              else int (nat_of_digits ds))))
           else None))"

text \<open>
  A decimal float literal without sign, as \<open>(d, x)\<close> of value \<open>d * 10^x\<close>:
  \<open>[digitpart] "." digitpart | digitpart ["."]\<close>, then the optional exponent.
\<close>

definition parse_floatnumber :: "string \<Rightarrow> (nat \<times> int) option" where
  "parse_floatnumber s =
     (case take_digits s of (ip, r1) \<Rightarrow>
        (case r1 of
           [] \<Rightarrow> if ip = [] then None else Some (nat_of_digits ip, 0)
         | c # r2 \<Rightarrow>
             (if c = CHR ''.'' then
                (case take_digits r2 of (fp, r3) \<Rightarrow>
                   if ip = [] \<and> fp = [] then None
                   else (case parse_exponent r3 of
                           None \<Rightarrow> None
                         | Some x \<Rightarrow> Some (nat_of_digits (ip @ fp), x - int (length fp))))
              else if ip = [] then None
              else (case parse_exponent r1 of
                      None \<Rightarrow> None
                    | Some x \<Rightarrow> Some (nat_of_digits ip, x)))))"

definition double_of_decimal :: "bool \<Rightarrow> nat \<Rightarrow> int \<Rightarrow> pyfloat" where
  "double_of_decimal negative d x =
     (case (if 0 \<le> x then round_double (d * 10 ^ nat x) 1 0
            else round_double d (10 ^ nat (- x)) 0) of
        None \<Rightarrow> Infinite negative
      | Some (m, e) \<Rightarrow> Finite negative m e)"

text \<open>\<open>float(s)\<close>; \<open>None\<close> stands for \<open>ValueError\<close>.\<close>

definition py_float :: "string \<Rightarrow> pyfloat option" where
  "py_float s =
     (case take_sign (str_strip s) of (negative, body) \<Rightarrow>
        (if str_lower body = ''inf'' \<or> str_lower body = ''infinity'' then Some (Infinite negative)
         else if str_lower body = ''nan'' then Some NaN
         else (case parse_floatnumber body of
                 None \<Rightarrow> None
               | Some (d, x) \<Rightarrow> Some (double_of_decimal negative d x))))"

text \<open>\<open>x * k\<close> for a float \<open>x\<close> and a positive integer constant \<open>k\<close> that is a double.\<close>

definition float_times :: "pyfloat \<Rightarrow> nat \<Rightarrow> pyfloat" where
  "float_times x k =
     (case x of
        Finite negative m e \<Rightarrow>
          (case round_double (m * k) 1 e of
             None \<Rightarrow> Infinite negative
           | Some (m', e') \<Rightarrow> Finite negative m' e')
      | Infinite negative \<Rightarrow> Infinite negative
      | NaN \<Rightarrow> NaN)"

text \<open>\<open>int(x)\<close> for a float: truncation towards zero.\<close>

definition int_of_float :: "pyfloat \<Rightarrow> error + int" where
  "int_of_float x =
     (case x of
        Finite negative m e \<Rightarrow>
          (let magnitude = (if 0 \<le> e then int m * 2 ^ nat e else int m div 2 ^ nat (- e))
           in Inr (if negative then - magnitude else magnitude))
      | Infinite negative \<Rightarrow> Inl OverflowError
      | NaN \<Rightarrow> Inl ValueError)"

text \<open>
  The handler of \<open>parse_count\<close>: \<open>ValueError\<close> and \<open>TypeError\<close> give 0, any other exception
  leaves the function.
\<close>

definition count_or_zero :: "error + int \<Rightarrow> error + int" where
  "count_or_zero r =
     (case r of
        Inl ValueError \<Rightarrow> Inr 0
      | Inl TypeError \<Rightarrow> Inr 0
      | Inl e \<Rightarrow> Inl e
      | Inr n \<Rightarrow> Inr n)"

definition parse_count :: "string \<Rightarrow> error + int" where
  "parse_count count_str =
     (let s = str_remove CHR '' '' (str_remove CHR '','' count_str) in
      count_or_zero
        (if CHR ''K'' \<in> set s then
           (case py_float (str_remove CHR ''K'' s) of
              None \<Rightarrow> Inl ValueError
            | Some x \<Rightarrow> int_of_float (float_times x 1000))
         else if CHR ''M'' \<in> set s then
           (case py_float (str_remove CHR ''M'' s) of
              None \<Rightarrow> Inl ValueError
            | Some x \<Rightarrow> int_of_float (float_times x 1000000))
         else
           (case py_int s of
              None \<Rightarrow> Inl ValueError
            | Some n \<Rightarrow> Inr n)))"

text \<open>A non-empty string of ASCII digits.\<close>

definition is_digits :: "string \<Rightarrow> bool" where
  "is_digits ds = (ds \<noteq> [] \<and> list_all is_digit ds)"

text \<open>
  \<open>get_profile_data\<close>: \<open>load_profile\<close> stands for the navigation and the extraction of the
  attributes.  \<open>NotFound\<close> is the "Page Not Found" return, \<open>FetchError\<close> an exception that
  reaches the outer handler, \<open>Found\<close> the dictionary built otherwise (its \<open>username\<close> and
  \<open>profile_url\<close> are set from the argument).  The session counters are updated as the
  source does.
\<close>

definition get_profile_data ::
  "'w driver \<Rightarrow> string \<Rightarrow> session_data \<times> 'w \<Rightarrow> profile_data option \<times> session_data \<times> 'w" where
  "get_profile_data drv u = (\<lambda>(sd, w).
     (case load_profile drv u w of
        (NotFound, w1) \<Rightarrow> (None, sd, w1)
      | (FetchError, w1) \<Rightarrow> (None, increment_errors sd, w1)
      | (Found pd, w1) \<Rightarrow>
          (Some (pd\<lparr>username := u, profile_url := ''https://www.instagram.com/'' @ u @ ''/''\<rparr>),
           increment_scanned sd, w1)))"

text \<open>\<open>xs[-k]\<close> for \<open>k > 0\<close>; \<open>None\<close> stands for \<open>IndexError\<close>.\<close>

definition index_from_end :: "'a list \<Rightarrow> nat \<Rightarrow> 'a option" where
  "index_from_end xs k = (if 0 < k \<and> k \<le> length xs then Some (xs ! (length xs - k)) else None)"

text \<open>
  The body of the loop over the elements of the followers dialog, for one element's
  \<open>href\<close>: the name to add to \<open>followers\<close>, if any.
\<close>

definition username_from_href :: "string option \<Rightarrow> string option attempt" where
  "username_from_href href =
     (case href of
        None \<Rightarrow> Returns None
      | Some h \<Rightarrow>
          (if h \<noteq> [] \<and> str_in ''instagram.com/'' h then
             (let parts = str_split CHR ''/'' h in
              case (if str_endswith h ''/'' then index_from_end parts 2
                    else index_from_end parts 1) of
                None \<Rightarrow> Raises
              | Some name \<Rightarrow> (if name \<noteq> [] \<and> 0 < length name then Returns (Some name)
                              else Returns None))
           else Returns None))"

text \<open>
  The \<open>for element in follower_elements\<close> loop.  The flag is false when an exception
  ended it; names added before the exception stay in the set.
\<close>

fun collect_followers :: "string option attempt list \<Rightarrow> string set \<Rightarrow> string set \<times> bool" where
  "collect_followers [] followers = (followers, True)"
| "collect_followers (Raises # elements) followers = (followers, False)"
| "collect_followers (Returns href # elements) followers =
     (case username_from_href href of
        Raises \<Rightarrow> (followers, False)
      | Returns None \<Rightarrow> collect_followers elements followers
      | Returns (Some name) \<Rightarrow> collect_followers elements (insert name followers))"

text \<open>One pass through the body of the \<open>while\<close> loop; the flag is false on \<open>break\<close>.\<close>

definition scroll_iteration :: "'w driver \<Rightarrow> string set \<Rightarrow> 'w \<Rightarrow> string set \<times> bool \<times> 'w" where
  "scroll_iteration drv followers w =
     (case find_follower_elements drv w of
        (Raises, w1) \<Rightarrow> (followers, False, w1)
      | (Returns elements, w1) \<Rightarrow>
          (case collect_followers elements followers of
             (followers1, False) \<Rightarrow> (followers1, False, w1)
           | (followers1, True) \<Rightarrow>
               (case scroll_dialog drv w1 of
                  (False, w2) \<Rightarrow> (followers1, False, w2)
                | (True, w2) \<Rightarrow> (followers1, True, w2))))"

text \<open>
  The \<open>while len(followers) < limit and scroll_attempts < max_scroll_attempts\<close> loop.  The
  state is \<open>(followers, scroll_attempts, iterations, w)\<close>; \<open>iterations\<close> is not a variable of
  the source: it counts the passes through the loop body, including one ended by \<open>break\<close>.
\<close>

function scroll_loop ::
  "'w driver \<Rightarrow> int \<Rightarrow> int \<Rightarrow> string set \<times> int \<times> nat \<times> 'w \<Rightarrow> string set \<times> int \<times> nat \<times> 'w" where
  "scroll_loop drv limit max_scroll_attempts (followers, scroll_attempts, iterations, w) =
     (if int (card followers) < limit \<and> scroll_attempts < max_scroll_attempts then
        (case scroll_iteration drv followers w of
           (followers1, False, w1) \<Rightarrow> (followers1, scroll_attempts, iterations + 1, w1)
         | (followers1, True, w1) \<Rightarrow>
             scroll_loop drv limit max_scroll_attempts
               (followers1, scroll_attempts + 1, iterations + 1, w1))
      else (followers, scroll_attempts, iterations, w))"
  by pat_completeness auto
termination
  by (relation "measure (\<lambda>(drv, limit, max_scroll_attempts, followers, scroll_attempts, iterations, w).
        nat (max_scroll_attempts - scroll_attempts))") auto

declare scroll_loop.simps [simp del]

text \<open>\<open>xs[:limit]\<close>: a negative \<open>limit\<close> drops that many elements from the end.\<close>

definition slice_to :: "int \<Rightarrow> 'a list \<Rightarrow> 'a list" where
  "slice_to limit xs =
     (if 0 \<le> limit then take (nat limit) xs else take (length xs - nat (- limit)) xs)"

text \<open>
  \<open>get_followers\<close>.  \<open>open_followers_dialog\<close> is false when loading the profile or opening
  the dialog raises: the outer handler returns the empty list.
\<close>

definition get_followers ::
  "'w driver \<Rightarrow> (string set \<Rightarrow> string list) \<Rightarrow> string \<Rightarrow> int \<Rightarrow> 'w \<Rightarrow> string list \<times> 'w" where
  "get_followers drv listing u limit w =
     (case open_followers_dialog drv u w of
        (False, w1) \<Rightarrow> ([], w1)
      | (True, w1) \<Rightarrow>
          (case scroll_loop drv limit (limit div 12) ({}, 0, 0, w1) of
             (followers, scroll_attempts, iterations, w2) \<Rightarrow>
               (slice_to limit (listing followers), close_followers_dialog drv w2)))"

section \<open>HunterOrchestrator\<close>

text \<open>
  \<open>self.stats\<close>; the fields carry the prefix \<open>stats_\<close>, since three of them share their
  names with fields of the session dictionary.
\<close>

record stats =
  stats_session_start_time :: "string option"
  stats_total_profiles_scanned :: int
  stats_valid_profiles_processed :: int
  stats_hvts_found :: int
  stats_errors_encountered :: int
  stats_current_depth :: int

text \<open>
  The mutable state of a run: the session manager's dictionary and file, the statistics,
  the stop flag and the browser.  Only the handler of \<open>SIGINT\<close> sets the flag, and it
  leaves the process right after; interrupts are not modelled, so no step changes the flag.
\<close>

record 'w orchestrator =
  session :: session_data
  session_file :: session_file
  run_stats :: stats
  should_stop :: bool
  world :: 'w

text \<open>What a run is configured with and does not change.\<close>

record 'w run_config =
  scraper :: "'w driver"
  libraries :: nlp
  profile_filter :: ProfileFilter
  filters :: user_filters
  set_listing :: "string set \<Rightarrow> string list"
  file_writable :: bool
  timestamp :: string

definition initial_stats :: stats where
  "initial_stats =
     \<lparr>stats_session_start_time = None, stats_total_profiles_scanned = 0,
      stats_valid_profiles_processed = 0, stats_hvts_found = 0, stats_errors_encountered = 0,
      stats_current_depth = 0\<rparr>"

definition process_single_profile ::
  "'w run_config \<Rightarrow> string \<Rightarrow> 'w orchestrator \<Rightarrow> profile_data option \<times> 'w orchestrator" where
  "process_single_profile cfg u st =
     (if is_profile_seen u (session st) then (None, st)
      else
        (case get_profile_data (scraper cfg) u (session st, world st) of
           (fetched, sd, w) \<Rightarrow>
             (let st1 = st\<lparr>session := add_seen_profile u sd, world := w,
                          run_stats := (run_stats st)\<lparr>stats_total_profiles_scanned :=
                             stats_total_profiles_scanned (run_stats st) + 1\<rparr>\<rparr>
              in case fetched of
                   None \<Rightarrow> (None, st1)
                 | Some pd \<Rightarrow>
                     (if \<not> fst (validate_and_score_profile pd) then (None, st1)
                      else (Some pd,
                            st1\<lparr>run_stats := (run_stats st1)\<lparr>stats_valid_profiles_processed :=
                               stats_valid_profiles_processed (run_stats st1) + 1\<rparr>\<rparr>)))))"

text \<open>
  The keyword arguments of a call of the dataclass constructor: \<open>None\<close> for a field the
  call does not pass.  \<open>UserProfile.__init__\<close> has no default for any field, so a call
  that leaves one out raises \<open>TypeError\<close>.
\<close>

record UserProfile_kwargs =
  kw_username :: "string option"
  kw_follower_count :: "int option"
  kw_following_count :: "int option"
  kw_post_count :: "int option"
  kw_bio :: "string option"
  kw_profile_url :: "string option"
  kw_has_active_story :: "bool option"
  kw_location :: "string option"
  kw_is_verified :: "bool option"
  kw_is_private :: "bool option"
  kw_profile_pic_url :: "string option option"
  kw_last_post_date :: "string option option"
  kw_engagement_rate :: "real option"
  kw_estimated_gender :: "string option"
  kw_bio_language :: "string option"
  kw_account_age_estimate :: "string option"
  kw_reason_for_selection :: "string option"
  kw_source_hvt :: "string option"
  kw_discovery_timestamp :: "string option"

definition UserProfile_init :: "UserProfile_kwargs \<Rightarrow> error + UserProfile" where
  "UserProfile_init kw =
     (case
        do {
          a1 \<leftarrow> kw_username kw;
          a2 \<leftarrow> kw_follower_count kw;
          a3 \<leftarrow> kw_following_count kw;
          a4 \<leftarrow> kw_post_count kw;
          a5 \<leftarrow> kw_bio kw;
          a6 \<leftarrow> kw_profile_url kw;
          a7 \<leftarrow> kw_has_active_story kw;
          a8 \<leftarrow> kw_location kw;
          a9 \<leftarrow> kw_is_verified kw;
          a10 \<leftarrow> kw_is_private kw;
          a11 \<leftarrow> kw_profile_pic_url kw;
          a12 \<leftarrow> kw_last_post_date kw;
          a13 \<leftarrow> kw_engagement_rate kw;
          a14 \<leftarrow> kw_estimated_gender kw;
          a15 \<leftarrow> kw_bio_language kw;
          a16 \<leftarrow> kw_account_age_estimate kw;
          a17 \<leftarrow> kw_reason_for_selection kw;
          a18 \<leftarrow> kw_source_hvt kw;
          a19 \<leftarrow> kw_discovery_timestamp kw;
          Some \<lparr>up_username = a1, up_follower_count = a2, up_following_count = a3,
                up_post_count = a4, up_bio = a5, up_profile_url = a6,
                up_has_active_story = a7, up_location = a8, up_is_verified = a9,
                up_is_private = a10, up_profile_pic_url = a11, up_last_post_date = a12,
                up_engagement_rate = a13, up_estimated_gender = a14, up_bio_language = a15,
                up_account_age_estimate = a16, up_reason_for_selection = a17,
                up_source_hvt = a18, up_discovery_timestamp = a19\<rparr>
        }
      of None \<Rightarrow> Inl TypeError
       | Some hvt \<Rightarrow> Inr hvt)"

text \<open>
  \<open>create_hvt_profile\<close> passes seventeen keyword arguments: \<open>last_post_date\<close> and
  \<open>account_age_estimate\<close> are not among them.
\<close>

definition create_hvt_profile ::
  "nlp \<Rightarrow> string \<Rightarrow> profile_data \<Rightarrow> string \<Rightarrow> string \<Rightarrow> error + UserProfile" where
  "create_hvt_profile lib now pd reason source =
     (let analysis = analyze_bio lib (bio pd) in
      UserProfile_init
        \<lparr>kw_username = Some (username pd),
         kw_follower_count = Some (follower_count pd),
         kw_following_count = Some (following_count pd),
         kw_post_count = Some (post_count pd),
         kw_bio = Some (bio pd),
         kw_profile_url = Some (profile_url pd),
         kw_has_active_story = Some (has_active_story pd),
         kw_location = Some (location pd),
         kw_is_verified = Some (is_verified pd),
         kw_is_private = Some (is_private pd),
         kw_profile_pic_url = Some (profile_pic_url pd),
         kw_last_post_date = None,
         kw_engagement_rate = Some (engagement_rate pd),
         kw_estimated_gender = Some (estimated_gender analysis),
         kw_bio_language = Some (language analysis),
         kw_account_age_estimate = None,
         kw_reason_for_selection = Some reason,
         kw_source_hvt = Some source,
         kw_discovery_timestamp = Some now\<rparr>)"

text \<open>
  What both phases do with a profile that passed the filters: build the record, append it
  to the local lists of the phase, store it in the session, count it.
\<close>

definition record_hvt :: "UserProfile \<Rightarrow> 'w orchestrator \<Rightarrow> 'w orchestrator" where
  "record_hvt hvt st =
     st\<lparr>session := add_hvt hvt (session st),
        run_stats := (run_stats st)\<lparr>stats_hvts_found := stats_hvts_found (run_stats st) + 1\<rparr>\<rparr>"

text \<open>
  The loop of \<open>find_initial_hvts\<close> over the seed usernames; \<open>initial_hvts\<close> is the local
  list.  An exception ends the loop and reaches the caller with the state as it is.
\<close>

fun seed_loop ::
  "'w run_config \<Rightarrow> string list \<Rightarrow> UserProfile list \<Rightarrow> 'w orchestrator
     \<Rightarrow> (error + UserProfile list) \<times> 'w orchestrator" where
  "seed_loop cfg [] initial_hvts st = (Inr initial_hvts, st)"
| "seed_loop cfg (u # usernames) initial_hvts st =
     (if should_stop st then (Inr initial_hvts, st)
      else
        (case process_single_profile cfg u st of
           (None, st1) \<Rightarrow> seed_loop cfg usernames initial_hvts st1
         | (Some pd, st1) \<Rightarrow>
             (case apply_all_filters (profile_filter cfg) (libraries cfg) (filters cfg) pd of
                (False, reason) \<Rightarrow> seed_loop cfg usernames initial_hvts st1
              | (True, reason) \<Rightarrow>
                  (case create_hvt_profile (libraries cfg) (timestamp cfg) pd reason
                          ''initial_seed'' of
                     Inl e \<Rightarrow> (Inl e, st1)
                   | Inr hvt \<Rightarrow>
                       seed_loop cfg usernames (initial_hvts @ [hvt]) (record_hvt hvt st1)))))"

definition find_initial_hvts ::
  "'w run_config \<Rightarrow> 'w orchestrator \<Rightarrow> (error + UserProfile list) \<times> 'w orchestrator" where
  "find_initial_hvts cfg st =
     (if seed_hashtags (filters cfg) = [] then (Inr [], st)
      else
        (case get_profiles_from_hashtags (scraper cfg) (seed_hashtags (filters cfg)) (world st) of
           (seed_usernames, w) \<Rightarrow>
             (if seed_usernames = [] then (Inr [], st\<lparr>world := w\<rparr>)
              else seed_loop cfg seed_usernames [] (st\<lparr>world := w\<rparr>))))"

definition budget_reached :: "'w run_config \<Rightarrow> 'w orchestrator \<Rightarrow> bool" where
  "budget_reached cfg st =
     (max_profiles (filters cfg) \<le> stats_total_profiles_scanned (run_stats st))"

text \<open>
  The innermost loop of \<open>recursive_follower_expansion\<close>, over the followers of one source;
  the pair is \<open>(all_hvts, next_level_queue)\<close>.
\<close>

fun follower_loop ::
  "'w run_config \<Rightarrow> string \<Rightarrow> string list \<Rightarrow> UserProfile list \<times> UserProfile list
     \<Rightarrow> 'w orchestrator \<Rightarrow> (error + UserProfile list \<times> UserProfile list) \<times> 'w orchestrator" where
  "follower_loop cfg source [] found st = (Inr found, st)"
| "follower_loop cfg source (u # followers) found st =
     (if should_stop st \<or> budget_reached cfg st then (Inr found, st)
      else
        (case process_single_profile cfg u st of
           (None, st1) \<Rightarrow> follower_loop cfg source followers found st1
         | (Some pd, st1) \<Rightarrow>
             (case apply_all_filters (profile_filter cfg) (libraries cfg) (filters cfg) pd of
                (False, reason) \<Rightarrow> follower_loop cfg source followers found st1
              | (True, reason) \<Rightarrow>
                  (case create_hvt_profile (libraries cfg) (timestamp cfg) pd reason source of
                     Inl e \<Rightarrow> (Inl e, st1)
                   | Inr new_hvt \<Rightarrow>
                       follower_loop cfg source followers
                         (fst found @ [new_hvt], snd found @ [new_hvt])
                         (record_hvt new_hvt st1)))))"

text \<open>The loop over \<open>processing_queue\<close>, the profiles accepted at the previous depth.\<close>

fun source_loop ::
  "'w run_config \<Rightarrow> UserProfile list \<Rightarrow> UserProfile list \<times> UserProfile list
     \<Rightarrow> 'w orchestrator \<Rightarrow> (error + UserProfile list \<times> UserProfile list) \<times> 'w orchestrator" where
  "source_loop cfg [] found st = (Inr found, st)"
| "source_loop cfg (source_hvt # queue) found st =
     (if should_stop st \<or> budget_reached cfg st then (Inr found, st)
      else
        (case get_followers (scraper cfg) (set_listing cfg) (up_username source_hvt) 50 (world st) of
           (followers, w) \<Rightarrow>
             (if followers = [] then source_loop cfg queue found (st\<lparr>world := w\<rparr>)
              else
                (case follower_loop cfg (up_username source_hvt) followers found (st\<lparr>world := w\<rparr>) of
                   (Inl e, st1) \<Rightarrow> (Inl e, st1)
                 | (Inr found1, st1) \<Rightarrow> source_loop cfg queue found1 st1))))"

text \<open>The loop \<open>for depth in range(1, max_depth + 1)\<close>.\<close>

fun depth_loop ::
  "'w run_config \<Rightarrow> int list \<Rightarrow> UserProfile list \<times> UserProfile list
     \<Rightarrow> 'w orchestrator \<Rightarrow> (error + UserProfile list) \<times> 'w orchestrator" where
  "depth_loop cfg [] (all_hvts, processing) st = (Inr all_hvts, st)"
| "depth_loop cfg (depth # depths) (all_hvts, processing) st =
     (if processing = [] \<or> should_stop st then (Inr all_hvts, st)
      else
        (case source_loop cfg processing (all_hvts, [])
                (st\<lparr>run_stats := (run_stats st)\<lparr>stats_current_depth := depth\<rparr>\<rparr>) of
           (Inl e, st1) \<Rightarrow> (Inl e, st1)
         | (Inr (all_hvts1, next_level_queue), st1) \<Rightarrow>
             depth_loop cfg depths (all_hvts1, next_level_queue) st1))"

definition recursive_follower_expansion ::
  "'w run_config \<Rightarrow> UserProfile list \<Rightarrow> 'w orchestrator
     \<Rightarrow> (error + UserProfile list) \<times> 'w orchestrator" where
  "recursive_follower_expansion cfg initial_hvts st =
     depth_loop cfg [1..max_depth (filters cfg)] (initial_hvts, initial_hvts) st"

text \<open>
  \<open>export_results\<close>: with no profile it returns \<open>None\<close>.  With profiles, writing a row calls
  \<open>hvt.to_dict()\<close>, which the dataclass does not have; the handler of that exception calls
  \<open>Logger.error\<close> with the keyword \<open>exc_info\<close>, which \<open>Logger.error\<close> does not accept: a
  \<open>TypeError\<close> leaves \<open>export_results\<close>.
\<close>

definition export_results :: "UserProfile list \<Rightarrow> error + string option" where
  "export_results hvts = (if hvts = [] then Inr None else Inl TypeError)"

text \<open>The \<open>finally\<close> block of \<open>run_main_workflow\<close>: driver cleanup, then \<open>save_session\<close>.\<close>

definition finish_run :: "'w run_config \<Rightarrow> 'w orchestrator \<Rightarrow> 'w orchestrator" where
  "finish_run cfg st =
     st\<lparr>world := cleanup_driver (scraper cfg) (world st),
        session_file :=
          save_session (set_listing cfg) (file_writable cfg) (session st) (session_file st)\<rparr>"

text \<open>
  \<open>run_main_workflow\<close>, from driver start to the \<open>finally\<close> block.  The result is the
  returned boolean; an exception inside the \<open>try\<close> reaches the handler, whose own call of
  \<open>Logger.error\<close> with \<open>exc_info\<close> raises \<open>TypeError\<close>, so the workflow ends with that
  exception after the \<open>finally\<close> block.  \<open>pre_run_account_check\<close> logs and returns \<open>True\<close>,
  so its branch is left out.  The e-mail summary and the console tables after the export
  are not modelled.
\<close>

definition run_main_workflow ::
  "'w run_config \<Rightarrow> 'w orchestrator \<Rightarrow> (error + bool) \<times> 'w orchestrator" where
  "run_main_workflow cfg st0 =
     (let st = st0\<lparr>run_stats := (run_stats st0)\<lparr>stats_session_start_time := Some (timestamp cfg)\<rparr>\<rparr> in
      case initialize_driver (scraper cfg) (world st) of
        (False, w1) \<Rightarrow> (Inr False, finish_run cfg (st\<lparr>world := w1\<rparr>))
      | (True, w1) \<Rightarrow>
          (case check_login_status (scraper cfg) w1 of (logged_in, w2) \<Rightarrow>
             (case (if logged_in then (True, w2) else login_to_instagram (scraper cfg) w2) of
                (False, w3) \<Rightarrow> (Inr False, finish_run cfg (st\<lparr>world := w3\<rparr>))
              | (True, w3) \<Rightarrow>
                  (case find_initial_hvts cfg (st\<lparr>world := w3\<rparr>) of
                     (Inl e, st1) \<Rightarrow> (Inl TypeError, finish_run cfg st1)
                   | (Inr initial_hvts, st1) \<Rightarrow>
                       (if initial_hvts = [] \<and> \<not> should_stop st1
                        then (Inr True, finish_run cfg st1)
                        else
                          (case recursive_follower_expansion cfg initial_hvts st1 of
                             (Inl e, st2) \<Rightarrow> (Inl TypeError, finish_run cfg st2)
                           | (Inr all_hvts, st2) \<Rightarrow>
                               (case export_results all_hvts of
                                  Inl e \<Rightarrow> (Inl TypeError, finish_run cfg st2)
                                | Inr csv_file \<Rightarrow> (Inr True, finish_run cfg st2))))))))"

text \<open>
  The relation between the states before and after a stretch of the expansion phase, as
  far as the counter of scanned profiles goes: it does not decrease, and it does not pass
  the larger of its old value and the budget.
\<close>

definition scanned_within :: "'w run_config \<Rightarrow> 'w orchestrator \<Rightarrow> 'w orchestrator \<Rightarrow> bool" where
  "scanned_within cfg st st' =
     (stats_total_profiles_scanned (run_stats st')
        \<le> max (stats_total_profiles_scanned (run_stats st)) (max_profiles (filters cfg))
      \<and> stats_total_profiles_scanned (run_stats st)
        \<le> stats_total_profiles_scanned (run_stats st'))"

section \<open>Example inputs\<close>

text \<open>
  Concrete inputs on which the theorems below are exercised: the configuration template of
  \<open>hunter_v7.ConfigManager\<close> (engagement band 0.5 to 15.0), the defaults of
  \<open>interactive_configuration\<close>, libraries whose calls raise (so the fallbacks run), and a
  candidate whose engagement rate is unknown.
\<close>

definition example_lib :: nlp where
  "example_lib = \<lparr>textblob_detect_language = (\<lambda>_. None), vader_compound = (\<lambda>_. None)\<rparr>"

definition example_filter :: ProfileFilter where
  "example_filter =
     \<lparr>min_engagement_rate = 1 / 2, max_engagement_rate = 15, prefer_female = True,
      require_profile_pic = True, config_exclude_keywords = [''onlyfans'', ''escort'']\<rparr>"

definition example_user_filters :: user_filters where
  "example_user_filters =
     \<lparr>min_followers = 1000, max_followers = 50000, min_posts = 50,
      include_keywords = [], exclude_keywords = [], seed_hashtags = [''usamoms''],
      max_depth = 3, max_profiles = 1000\<rparr>"

definition example_profile :: profile_data where
  "example_profile =
     \<lparr>username = ''jane'', profile_url = ''https://www.instagram.com/jane/'',
      follower_count = 5000, following_count = 300, post_count = 80,
      bio = ''mom of 3 in Austin, Texas'', location = [], is_verified = False,
      is_private = False, profile_pic_url = Some ''pic.jpg'', has_active_story = True,
      last_post_date = None, engagement_rate = 0\<rparr>"

text \<open>
  A browser whose state is the list of profile pages it was asked to load: every profile
  is "not found", the hashtag pages name two authors, and the followers dialog always
  shows the same three links.
\<close>

definition example_driver :: "string list driver" where
  "example_driver =
     \<lparr>initialize_driver = (\<lambda>w. (True, w)),
      check_login_status = (\<lambda>w. (True, w)),
      login_to_instagram = (\<lambda>w. (True, w)),
      cleanup_driver = (\<lambda>w. w),
      get_profiles_from_hashtags = (\<lambda>tags w. ([''amy'', ''bob''], w)),
      load_profile = (\<lambda>u w. (NotFound, w @ [u])),
      open_followers_dialog = (\<lambda>u w. (True, w)),
      find_follower_elements = (\<lambda>w.
        (Returns [Returns (Some ''https://www.instagram.com/amy/''),
                  Returns (Some ''https://www.instagram.com/bob''), Returns None], w)),
      scroll_dialog = (\<lambda>w. (True, w)),
      close_followers_dialog = (\<lambda>w. w)\<rparr>"

text \<open>A session whose budget is one profile.\<close>

definition example_config :: "string list run_config" where
  "example_config =
     \<lparr>scraper = example_driver, libraries = example_lib, profile_filter = example_filter,
      filters = example_user_filters\<lparr>max_profiles := 1\<rparr>, set_listing = sorted_list_of_set,
      file_writable = True, timestamp = ''2024-05-01T10:00:00''\<rparr>"

definition example_start :: "string list orchestrator" where
  "example_start =
     \<lparr>session = new_session ''2024-05-01T09:59:00'', session_file = Missing,
      run_stats = initial_stats, should_stop = False, world = []\<rparr>"

definition example_hvt :: UserProfile where
  "example_hvt =
     \<lparr>up_username = ''jane'', up_follower_count = 5000, up_following_count = 300,
      up_post_count = 80, up_bio = ''mom of 3 in Austin, Texas'',
      up_profile_url = ''https://www.instagram.com/jane/'', up_has_active_story = True,
      up_location = [], up_is_verified = False, up_is_private = False,
      up_profile_pic_url = Some ''pic.jpg'', up_last_post_date = None,
      up_engagement_rate = 0, up_estimated_gender = ''female'', up_bio_language = ''unknown'',
      up_account_age_estimate = [], up_reason_for_selection = ''All criteria met'',
      up_source_hvt = ''initial_seed'', up_discovery_timestamp = ''2024-05-01T10:00:00''\<rparr>"

definition one_proxy_pool :: ProxyManager where
  "one_proxy_pool =
     \<lparr>proxies = [''192.168.1.1:8080''], current_proxy_index = 0, failed_proxies = {}\<rparr>"


section \<open>Properties\<close>

subsection \<open>Evaluation helpers\<close>

lemma str_int_examples:
  "str_int 200000 = ''200000''" "str_int 1000 = ''1000''" "str_int 50000 = ''50000''"
  by (simp_all add: str_int_def str_nat.simps digit_char_def)

lemma fmt_2f_example: "fmt_2f (41 / 2) = ''20.50''"
  by (simp add: fmt_2f_def round_half_even_def str_nat.simps digit_char_def)

lemma example_bio_lower:
  "str_lower ''mom of 3 in Austin, Texas'' = ''mom of 3 in austin, texas''"
  by code_simp

lemma example_bio_no_excluded:
  "\<not> str_in ''onlyfans'' ''mom of 3 in austin, texas''"
  "\<not> str_in ''escort'' ''mom of 3 in austin, texas''"
  by code_simp+

lemma example_bio_location:
  "is_usa_location ''mom of 3 in Austin, Texas'' [] =
     (True, ''USA location confirmed: in, mo, texas'')"
  by code_simp

lemma example_bio_analysis:
  "analyze_bio example_lib ''mom of 3 in Austin, Texas'' =
     \<lparr>language = ''unknown'', sentiment = ''neutral'', has_commercial_intent = False,
      estimated_gender = ''female'', age_indicators = [], topics = []\<rparr>"
  by code_simp

lemma example_profile_accepted:
  "should_target_profile example_filter example_lib example_profile example_user_filters =
     (True, ''All criteria met: USA location: USA location confirmed: in, mo, texas; ''
            @ ''Active story confirmed; Female profile (preferred)'')"
  by (simp add: should_target_profile_def example_filter_def example_profile_def
      example_user_filters_def example_bio_location example_bio_analysis example_bio_lower
      example_bio_no_excluded truthy_str_def)

subsection \<open>Qualification: the follower range\<close>

text \<open>
  C3 (as stated, on \<open>apply_all_filters\<close>) fails: the user's include-keyword check runs
  before the follower range is looked at, so a candidate with 200,000 followers whose
  biography lacks the required keyword is rejected with the keyword reason.
\<close>

theorem apply_all_filters_keyword_before_followers:
  "\<not> (min_followers (example_user_filters\<lparr>include_keywords := [''mom'']\<rparr>)
          \<le> follower_count (example_profile\<lparr>follower_count := 200000, bio := ''NYC fitness coach''\<rparr>)
        \<and> follower_count (example_profile\<lparr>follower_count := 200000, bio := ''NYC fitness coach''\<rparr>)
          \<le> max_followers (example_user_filters\<lparr>include_keywords := [''mom'']\<rparr>))
   \<and> apply_all_filters example_filter example_lib
        (example_user_filters\<lparr>include_keywords := [''mom'']\<rparr>)
        (example_profile\<lparr>follower_count := 200000, bio := ''NYC fitness coach''\<rparr>)
      = (False, ''Does not contain required keywords.'')
   \<and> apply_all_filters example_filter example_lib
        (example_user_filters\<lparr>include_keywords := [''mom'']\<rparr>)
        (example_profile\<lparr>follower_count := 200000, bio := ''NYC fitness coach''\<rparr>)
      \<noteq> (False, ''Follower count (200000) outside range 1000-50000'')"
proof -
  have "\<not> str_in (str_lower ''mom'') (str_lower ''NYC fitness coach'')"
    by code_simp
  then show ?thesis
    by (simp add: apply_all_filters_def example_user_filters_def example_profile_def)
qed

text \<open>
  C3, amended: a candidate whose follower count lies outside the configured range is
  rejected by \<open>ProfileFilter.should_target_profile\<close> with the follower-range reason, whatever
  its other fields, the filter's configuration and the libraries' answers are; and
  \<open>apply_all_filters\<close> returns that same rejection whenever the user's two keyword checks,
  which it runs first, pass.
\<close>

theorem follower_range_rejects_first:
  assumes "\<not> (min_followers uf \<le> follower_count pd \<and> follower_count pd \<le> max_followers uf)"
  shows "should_target_profile pf lib pd uf =
           (False, ''Follower count ('' @ str_int (follower_count pd) @ '') outside range ''
                     @ str_int (min_followers uf) @ ''-'' @ str_int (max_followers uf))
         \<and> ((include_keywords uf = []
               \<or> list_ex (\<lambda>k. str_in (str_lower k) (str_lower (bio pd))) (include_keywords uf))
             \<and> find (\<lambda>k. str_in (str_lower k) (str_lower (bio pd))) (exclude_keywords uf) = None
             \<longrightarrow> apply_all_filters pf lib uf pd =
                   (False, ''Follower count ('' @ str_int (follower_count pd) @ '') outside range ''
                     @ str_int (min_followers uf) @ ''-'' @ str_int (max_followers uf)))"
proof -
  have chain: "should_target_profile pf lib pd uf = (False, follower_range_reason pd uf)"
    using assms by (simp add: should_target_profile_def)
  then show ?thesis
    by (auto simp add: apply_all_filters_def follower_range_reason_def)
qed

theorem follower_range_rejects_first_witness:
  "\<not> (min_followers example_user_filters \<le> follower_count (example_profile\<lparr>follower_count := 200000\<rparr>)
        \<and> follower_count (example_profile\<lparr>follower_count := 200000\<rparr>)
            \<le> max_followers example_user_filters)
   \<and> include_keywords example_user_filters = []
   \<and> find (\<lambda>k. str_in (str_lower k) (str_lower (bio (example_profile\<lparr>follower_count := 200000\<rparr>))))
        (exclude_keywords example_user_filters) = None
   \<and> should_target_profile example_filter example_lib
        (example_profile\<lparr>follower_count := 200000\<rparr>) example_user_filters
      = (False, ''Follower count (200000) outside range 1000-50000'')
   \<and> apply_all_filters example_filter example_lib example_user_filters
        (example_profile\<lparr>follower_count := 200000\<rparr>)
      = (False, ''Follower count (200000) outside range 1000-50000'')"
proof -
  have out: "\<not> (min_followers example_user_filters
                  \<le> follower_count (example_profile\<lparr>follower_count := 200000\<rparr>)
                \<and> follower_count (example_profile\<lparr>follower_count := 200000\<rparr>)
                  \<le> max_followers example_user_filters)"
    by (simp add: example_user_filters_def example_profile_def)
  show ?thesis
    using follower_range_rejects_first [OF out, of example_filter example_lib]
    by (simp add: example_user_filters_def example_profile_def str_int_examples)
qed

subsection \<open>Qualification: the location detector\<close>

text \<open>
  C4: on the biography \<open>Springfield\<close> alone the detector answers "USA location confirmed",
  because the two-letter keywords \<open>in\<close>, \<open>ri\<close> and \<open>pr\<close> occur inside the word; with
  \<open>Springfield, Illinois\<close> it accepts, as the claim says.
\<close>

theorem is_usa_location_springfield:
  "is_usa_location ''Springfield'' [] = (True, ''USA location confirmed: in, ri, pr'')
   \<and> is_usa_location ''Springfield, Illinois'' [] =
       (True, ''USA location confirmed: illinois, il, in'')"
  by code_simp

lemma ambiguous_city_has_keyword:
  "str_in ''in'' ''springfield''" "str_in ''ma'' ''madison''" "str_in ''in'' ''franklin''"
  "str_in ''or'' ''georgetown''" "str_in ''in'' ''clinton''"
  by code_simp+

lemma short_keywords: "''in'' \<in> set usa_keywords" "''ma'' \<in> set usa_keywords" "''or'' \<in> set usa_keywords"
  by (simp_all add: usa_keywords_def)

lemma ambiguous_scan_dead:
  assumes "filter (\<lambda>keyword. str_in keyword txt) usa_keywords = []"
  shows "ambiguous_scan txt ambiguous_cities = None"
proof -
  have no: "\<not> str_in kw txt" if "kw \<in> set usa_keywords" for kw
    using assms that by (simp add: filter_empty_conv)
  have "\<not> str_in city txt" if "str_in kw city" "kw \<in> set usa_keywords" for kw city
    using no [OF that(2)] that(1) sublist_order.order.trans by blast
  then have "\<not> str_in ''springfield'' txt" "\<not> str_in ''madison'' txt" "\<not> str_in ''franklin'' txt"
    "\<not> str_in ''georgetown'' txt" "\<not> str_in ''clinton'' txt"
    using ambiguous_city_has_keyword short_keywords by blast+
  then show ?thesis by (simp add: ambiguous_cities_def)
qed

text \<open>
  The branch for ambiguous city names cannot be reached with a result: each of the five
  names contains a two-letter USA keyword, so a text that contains one of them has
  already been accepted by the keyword scan.  Neither "ambiguous" reason is ever returned.
\<close>

theorem ambiguous_city_branch_unreachable:
  "is_usa_location b l \<noteq> (False, ''Ambiguous city ('' @ city @ '') without USA context'')
   \<and> is_usa_location b l \<noteq> (True, ''Ambiguous city ('' @ city @ '') with USA context'')"
proof -
  let ?t = "str_lower (b @ '' '' @ l)"
  show ?thesis
  proof (cases "find (\<lambda>indicator. str_in indicator ?t) non_usa_indicators")
    case (Some i)
    then show ?thesis by (simp add: is_usa_location_def Let_def)
  next
    case None
    show ?thesis
    proof (cases "filter (\<lambda>keyword. str_in keyword ?t) usa_keywords = []")
      case True
      then show ?thesis using None ambiguous_scan_dead [OF True]
        by (simp add: is_usa_location_def Let_def)
    next
      case False
      then show ?thesis using None by (simp add: is_usa_location_def Let_def)
    qed
  qed
qed

subsection \<open>Qualification: the engagement band\<close>

text \<open>
  C8: a known engagement rate (greater than 0) outside the configured band rejects the
  candidate, and where every earlier check of the chain passes the rejection carries the
  engagement reason; with rate 0 the outcome does not depend on the band at all and
  never carries the engagement reason.
\<close>

theorem engagement_band_check:
  "(0 < engagement_rate pd
      \<and> \<not> (min_engagement_rate pf \<le> engagement_rate pd
             \<and> engagement_rate pd \<le> max_engagement_rate pf)
      \<longrightarrow> \<not> fst (should_target_profile pf lib pd uf))
   \<and> (0 < rate \<and> \<not> (min_engagement_rate pf \<le> rate \<and> rate \<le> max_engagement_rate pf)
        \<and> fst (should_target_profile pf lib (pd\<lparr>engagement_rate := 0\<rparr>) uf)
      \<longrightarrow> should_target_profile pf lib (pd\<lparr>engagement_rate := rate\<rparr>) uf =
            (False, ''Engagement rate ('' @ fmt_2f rate
                      @ ''%) outside normal range (possible bot)''))
   \<and> (engagement_rate pd = 0
      \<longrightarrow> should_target_profile (pf\<lparr>min_engagement_rate := lo, max_engagement_rate := hi\<rparr>)
              lib pd uf
            = should_target_profile pf lib pd uf
          \<and> snd (should_target_profile pf lib pd uf) \<noteq>
              ''Engagement rate ('' @ fmt_2f r @ ''%) outside normal range (possible bot)'')"
proof (intro conjI impI)
  assume "0 < engagement_rate pd
      \<and> \<not> (min_engagement_rate pf \<le> engagement_rate pd
             \<and> engagement_rate pd \<le> max_engagement_rate pf)"
  then show "\<not> fst (should_target_profile pf lib pd uf)"
    by (auto simp add: should_target_profile_def Let_def split: prod.splits option.splits)
next
  assume "0 < rate \<and> \<not> (min_engagement_rate pf \<le> rate \<and> rate \<le> max_engagement_rate pf)
        \<and> fst (should_target_profile pf lib (pd\<lparr>engagement_rate := 0\<rparr>) uf)"
  then show "should_target_profile pf lib (pd\<lparr>engagement_rate := rate\<rparr>) uf =
            (False, ''Engagement rate ('' @ fmt_2f rate
                      @ ''%) outside normal range (possible bot)'')"
    by (auto simp add: should_target_profile_def Let_def engagement_reason_def
        split: prod.splits option.splits if_splits)
next
  assume "engagement_rate pd = 0"
  then show "should_target_profile (pf\<lparr>min_engagement_rate := lo, max_engagement_rate := hi\<rparr>)
              lib pd uf
            = should_target_profile pf lib pd uf"
    by (auto simp add: should_target_profile_def Let_def split: prod.splits option.splits if_splits)
next
  assume "engagement_rate pd = 0"
  then show "snd (should_target_profile pf lib pd uf) \<noteq>
              ''Engagement rate ('' @ fmt_2f r @ ''%) outside normal range (possible bot)''"
    by (auto simp add: should_target_profile_def Let_def follower_range_reason_def
        split: prod.splits option.splits if_splits)
qed

theorem engagement_band_check_witness:
  "0 < (41 / 2 :: real)
   \<and> \<not> (min_engagement_rate example_filter \<le> 41 / 2 \<and> 41 / 2 \<le> max_engagement_rate example_filter)
   \<and> fst (should_target_profile example_filter example_lib
             (example_profile\<lparr>engagement_rate := 0\<rparr>) example_user_filters)
   \<and> \<not> fst (should_target_profile example_filter example_lib
               (example_profile\<lparr>engagement_rate := 41 / 2\<rparr>) example_user_filters)
   \<and> should_target_profile example_filter example_lib
        (example_profile\<lparr>engagement_rate := 41 / 2\<rparr>) example_user_filters
      = (False, ''Engagement rate (20.50%) outside normal range (possible bot)'')
   \<and> engagement_rate example_profile = 0
   \<and> should_target_profile (example_filter\<lparr>min_engagement_rate := 3, max_engagement_rate := 4\<rparr>)
        example_lib example_profile example_user_filters
      = should_target_profile example_filter example_lib example_profile example_user_filters
   \<and> snd (should_target_profile example_filter example_lib example_profile example_user_filters)
      \<noteq> ''Engagement rate (20.50%) outside normal range (possible bot)''"
proof -
  have same: "example_profile\<lparr>engagement_rate := 0\<rparr> = example_profile"
    by (simp add: example_profile_def)
  have band: "min_engagement_rate example_filter = 1 / 2" "max_engagement_rate example_filter = 15"
    by (simp_all add: example_filter_def)
  have zero: "engagement_rate example_profile = 0"
    by (simp add: example_profile_def)
  have rate: "engagement_rate (example_profile\<lparr>engagement_rate := 41 / 2\<rparr>) = 41 / 2"
    by simp
  show ?thesis
    using engagement_band_check [where pd = "example_profile\<lparr>engagement_rate := 41 / 2\<rparr>"
        and pf = example_filter and lib = example_lib and uf = example_user_filters
        and rate = "41 / 2" and lo = 3 and hi = 4 and r = "41 / 2"]
      engagement_band_check [where pd = example_profile
        and pf = example_filter and lib = example_lib and uf = example_user_filters
        and rate = "41 / 2" and lo = 3 and hi = 4 and r = "41 / 2"]
    by (simp add: same band zero rate example_profile_accepted fmt_2f_example)
qed

subsection \<open>BioAnalyzer: the empty biography\<close>

text \<open>
  C10: on the empty biography \<open>analyze_bio\<close> returns the fixed default record, whatever
  the language and sentiment libraries would answer: no detector contributes to it.
\<close>

theorem analyze_bio_empty:
  "analyze_bio lib [] =
     \<lparr>language = ''unknown'', sentiment = ''neutral'', has_commercial_intent = False,
      estimated_gender = ''unknown'', age_indicators = [], topics = []\<rparr>"
  by (simp add: analyze_bio_def default_bio_analysis_def)

subsection \<open>ProxyManager: failed proxies\<close>

lemma format_proxy_example:
  "format_proxy ''192.168.1.1:8080'' =
     [(''http'', ''http://192.168.1.1:8080''), (''https'', ''http://192.168.1.1:8080'')]"
  by (simp add: format_proxy_def Let_def)

text \<open>
  C7: \<open>get_next_proxy\<close> compares the raw line of the proxy file with the failed set, while
  \<open>mark_proxy_failed\<close> stores the formatted URL.  With one proxy in the pool, the proxy
  returned first is returned again after it has been marked failed.
\<close>

theorem failed_proxy_returned_again:
  "get_next_proxy one_proxy_pool =
     (Inr (Some [(''http'', ''http://192.168.1.1:8080''), (''https'', ''http://192.168.1.1:8080'')]),
      one_proxy_pool)
   \<and> fst (get_next_proxy
           (mark_proxy_failed
              (Some [(''http'', ''http://192.168.1.1:8080''), (''https'', ''http://192.168.1.1:8080'')])
              one_proxy_pool))
       = Inr (Some [(''http'', ''http://192.168.1.1:8080''), (''https'', ''http://192.168.1.1:8080'')])"
  by (simp add: get_next_proxy_def one_proxy_pool_def format_proxy_example mark_proxy_failed_def
      dict_get_def Let_def next_proxy_loop.simps)

lemma next_proxy_loop_mark_irrelevant:
  "url \<notin> set (proxies pm) \<Longrightarrow> proxies pm2 = proxies pm \<Longrightarrow>
   current_proxy_index pm2 = current_proxy_index pm \<Longrightarrow>
   failed_proxies pm2 = insert url (failed_proxies pm) \<Longrightarrow>
   fst (next_proxy_loop pm2 n) = fst (next_proxy_loop pm n)"
proof (induction pm n arbitrary: pm2 rule: next_proxy_loop.induct)
  case (1 pm attempts)
  show ?case
  proof (cases "attempts < length (proxies pm) \<and> current_proxy_index pm < length (proxies pm)")
    case False
    then show ?thesis
      using 1(2-)
      by (subst next_proxy_loop.simps, subst (2) next_proxy_loop.simps) (auto simp add: Let_def)
  next
    case True
    then have ne: "proxies pm ! current_proxy_index pm \<noteq> url"
      using 1(2) by (metis nth_mem)
    show ?thesis
    proof (cases "proxies pm ! current_proxy_index pm \<in> failed_proxies pm")
      case False
      then show ?thesis
        using True ne 1(2-)
        by (subst next_proxy_loop.simps, subst (2) next_proxy_loop.simps) (auto simp add: Let_def)
    next
      case failed: True
      let ?pm' = "pm\<lparr>current_proxy_index := (current_proxy_index pm + 1) mod length (proxies pm)\<rparr>"
      let ?pm2' = "pm2\<lparr>current_proxy_index :=
                         (current_proxy_index pm2 + 1) mod length (proxies pm2)\<rparr>"
      have ih: "fst (next_proxy_loop ?pm2' (attempts + 1)) = fst (next_proxy_loop ?pm' (attempts + 1))"
        using True failed 1(2-)
        by (intro 1(1)[of "proxies pm ! current_proxy_index pm" ?pm' ?pm2']) auto
      have l: "next_proxy_loop pm attempts = next_proxy_loop ?pm' (attempts + 1)"
        using True failed by (subst next_proxy_loop.simps) (simp add: Let_def)
      have r: "next_proxy_loop pm2 attempts = next_proxy_loop ?pm2' (attempts + 1)"
        using True failed 1(2-) by (subst next_proxy_loop.simps) (simp add: Let_def)
      show ?thesis using ih l r by simp
    qed
  qed
qed

text \<open>
  The defect in general: unless the formatted URL of the marked proxy is itself a line of
  the pool, marking a proxy failed changes nothing in what \<open>get_next_proxy\<close> returns.
\<close>

theorem mark_proxy_failed_without_effect:
  assumes "dict_get d ''http'' [] \<notin> set (proxies pm)"
  shows "fst (get_next_proxy (mark_proxy_failed (Some d) pm)) = fst (get_next_proxy pm)"
proof (cases "d = []")
  case True
  then show ?thesis by (simp add: mark_proxy_failed_def)
next
  case False
  then show ?thesis
    using next_proxy_loop_mark_irrelevant [OF assms, of "mark_proxy_failed (Some d) pm" 0]
    by (simp add: mark_proxy_failed_def get_next_proxy_def)
qed

theorem mark_proxy_failed_without_effect_witness:
  "dict_get (format_proxy ''192.168.1.1:8080'') ''http'' [] \<notin> set (proxies one_proxy_pool)
   \<and> fst (get_next_proxy (mark_proxy_failed (Some (format_proxy ''192.168.1.1:8080'')) one_proxy_pool))
       = fst (get_next_proxy one_proxy_pool)"
proof -
  have h: "dict_get (format_proxy ''192.168.1.1:8080'') ''http'' [] \<notin> set (proxies one_proxy_pool)"
    by (simp add: format_proxy_example dict_get_def one_proxy_pool_def)
  show ?thesis
    using h mark_proxy_failed_without_effect [OF h] by simp
qed

subsection \<open>SessionManager: persistence\<close>

text \<open>
  C5: when the file can be written and \<open>list(s)\<close> enumerates exactly the elements of the
  seen set, loading what \<open>save_session\<close> wrote gives back the session dictionary: the same
  seen set, and the accepted profiles, in order and field by field, with the counters,
  the depth and the start time.
\<close>

theorem save_load_round_trip:
  assumes "set (listing (seen_profiles sd)) = seen_profiles sd"
  shows "load_session (save_session listing True sd old_file) now = sd
         \<and> seen_profiles (load_session (save_session listing True sd old_file) now) = seen_profiles sd
         \<and> discovered_hvts (load_session (save_session listing True sd old_file) now)
             = discovered_hvts sd"
  using assms by (simp add: load_session_def save_session_def)

theorem save_load_round_trip_witness:
  "set (sorted_list_of_set
          (seen_profiles (add_hvt example_hvt
             ((new_session ''2024-05-01T09:59:00'')\<lparr>seen_profiles := {''jane'', ''amy''}\<rparr>))))
     = seen_profiles (add_hvt example_hvt
             ((new_session ''2024-05-01T09:59:00'')\<lparr>seen_profiles := {''jane'', ''amy''}\<rparr>))
   \<and> load_session
        (save_session sorted_list_of_set True
           (add_hvt example_hvt
              ((new_session ''2024-05-01T09:59:00'')\<lparr>seen_profiles := {''jane'', ''amy''}\<rparr>))
           Missing) ''2024-05-02T08:00:00''
      = add_hvt example_hvt
          ((new_session ''2024-05-01T09:59:00'')\<lparr>seen_profiles := {''jane'', ''amy''}\<rparr>)
   \<and> discovered_hvts (load_session
        (save_session sorted_list_of_set True
           (add_hvt example_hvt
              ((new_session ''2024-05-01T09:59:00'')\<lparr>seen_profiles := {''jane'', ''amy''}\<rparr>))
           Missing) ''2024-05-02T08:00:00'') = [example_hvt]"
proof -
  let ?sd = "add_hvt example_hvt
     ((new_session ''2024-05-01T09:59:00'')\<lparr>seen_profiles := {''jane'', ''amy''}\<rparr>)"
  have seen: "seen_profiles ?sd = {''jane'', ''amy''}"
    by (simp add: add_hvt_def)
  have h: "set (sorted_list_of_set (seen_profiles ?sd)) = seen_profiles ?sd"
    unfolding seen by auto
  have hvts: "discovered_hvts ?sd = [example_hvt]"
    by (simp add: add_hvt_def new_session_def)
  show ?thesis
    using h hvts
      save_load_round_trip [where listing = sorted_list_of_set and sd = ?sd and old_file = Missing
        and now = "''2024-05-02T08:00:00''"]
    by simp
qed

subsection \<open>ScrapingEngine: the follower collection\<close>










subsection \<open>Orchestrator: the budget\<close>

text \<open>
  C1: the seed phase has no budget check.  With a budget of one profile and two seed
  usernames, both profiles are fetched and the counter ends at 2.
\<close>

theorem seed_phase_exceeds_budget:
  "(case run_main_workflow example_config example_start of
      (result, st) \<Rightarrow>
        result = Inr True
        \<and> stats_total_profiles_scanned (run_stats st) = 2
        \<and> world st = [''amy'', ''bob''])
   \<and> max_profiles (filters example_config) = 1"
  by (simp add: run_main_workflow_def example_config_def example_start_def example_driver_def
      find_initial_hvts_def example_user_filters_def process_single_profile_def
      get_profile_data_def is_profile_seen_def new_session_def add_seen_profile_def
      initial_stats_def finish_run_def Let_def)

lemma create_hvt_profile_raises:
  "create_hvt_profile lib now pd reason source = Inl TypeError"
  by (simp add: create_hvt_profile_def UserProfile_init_def Let_def)

text \<open>
  Every call of \<open>create_hvt_profile\<close> raises \<open>TypeError\<close>: the constructor call leaves out
  two fields that have no default.  So each phase ends with that exception at the first
  profile that passes the filters.
\<close>

theorem create_hvt_profile_always_raises:
  "create_hvt_profile lib now pd reason source = Inl TypeError"
  by (simp add: create_hvt_profile_def UserProfile_init_def Let_def)

lemma process_single_profile_scanned:
  "process_single_profile cfg u st = (r, st') \<Longrightarrow>
     stats_total_profiles_scanned (run_stats st')
       \<le> stats_total_profiles_scanned (run_stats st) + 1
     \<and> stats_total_profiles_scanned (run_stats st)
       \<le> stats_total_profiles_scanned (run_stats st')"
  by (auto simp add: process_single_profile_def Let_def
      split: prod.splits option.splits if_splits)

lemma scanned_within_trans:
  "scanned_within cfg a b \<Longrightarrow> scanned_within cfg b c \<Longrightarrow> scanned_within cfg a c"
  by (auto simp add: scanned_within_def)

lemma follower_loop_budget:
  "follower_loop cfg src fs acc st = (r, st') \<Longrightarrow> scanned_within cfg st st'"
proof (induction fs arbitrary: acc st)
  case Nil
  then show ?case by (simp add: scanned_within_def)
next
  case (Cons u fs)
  show ?case
  proof (cases "should_stop st \<or> budget_reached cfg st")
    case True
    then show ?thesis using Cons.prems by (auto simp add: scanned_within_def)
  next
    case False
    obtain pd st1 where p: "process_single_profile cfg u st = (pd, st1)"
      by (cases "process_single_profile cfg u st") auto
    have lt: "stats_total_profiles_scanned (run_stats st) < max_profiles (filters cfg)"
      using False by (simp add: budget_reached_def)
    have w1: "scanned_within cfg st st1"
      using process_single_profile_scanned [OF p] lt by (auto simp add: scanned_within_def)
    show ?thesis
    proof (cases pd)
      case None
      then have "follower_loop cfg src fs acc st1 = (r, st')"
        using Cons.prems False p by simp
      from Cons.IH [OF this] w1 show ?thesis by (rule scanned_within_trans [rotated])
    next
      case (Some d)
      show ?thesis
      proof (cases "fst (apply_all_filters (profile_filter cfg) (libraries cfg) (filters cfg) d)")
        case True
        then have "st' = st1"
          using Cons.prems False p Some
          by (auto simp add: create_hvt_profile_raises split: prod.splits bool.splits)
        then show ?thesis using w1 by simp
      next
        case rejected: False
        then have "follower_loop cfg src fs acc st1 = (r, st')"
          using Cons.prems False p Some by (auto split: prod.splits bool.splits)
        from Cons.IH [OF this] w1 show ?thesis by (rule scanned_within_trans [rotated])
      qed
    qed
  qed
qed

lemma source_loop_budget:
  "source_loop cfg q acc st = (r, st') \<Longrightarrow> scanned_within cfg st st'"
proof (induction q arbitrary: acc st)
  case Nil
  then show ?case by (simp add: scanned_within_def)
next
  case (Cons h q)
  show ?case
  proof (cases "should_stop st \<or> budget_reached cfg st")
    case True
    then show ?thesis using Cons.prems by (auto simp add: scanned_within_def)
  next
    case False
    obtain fs w where
      g: "get_followers (scraper cfg) (set_listing cfg) (up_username h) 50 (world st) = (fs, w)"
      by (cases "get_followers (scraper cfg) (set_listing cfg) (up_username h) 50 (world st)") auto
    have w0: "scanned_within cfg st (st\<lparr>world := w\<rparr>)"
      by (simp add: scanned_within_def)
    show ?thesis
    proof (cases "fs = []")
      case True
      then have "source_loop cfg q acc (st\<lparr>world := w\<rparr>) = (r, st')"
        using Cons.prems False g by simp
      from Cons.IH [OF this] w0 show ?thesis by (rule scanned_within_trans [rotated])
    next
      case some: False
      obtain r1 st1 where
        f: "follower_loop cfg (up_username h) fs acc (st\<lparr>world := w\<rparr>) = (r1, st1)"
        by (cases "follower_loop cfg (up_username h) fs acc (st\<lparr>world := w\<rparr>)") auto
      have w1: "scanned_within cfg st st1"
        using follower_loop_budget [OF f] w0 by (rule scanned_within_trans [rotated])
      show ?thesis
      proof (cases r1)
        case (Inl e)
        then have "st' = st1" using Cons.prems False g some f by simp
        then show ?thesis using w1 by simp
      next
        case (Inr acc1)
        then have "source_loop cfg q acc1 st1 = (r, st')"
          using Cons.prems False g some f by simp
        from Cons.IH [OF this] w1 show ?thesis by (rule scanned_within_trans [rotated])
      qed
    qed
  qed
qed

lemma depth_loop_budget:
  "depth_loop cfg ds acc st = (r, st') \<Longrightarrow> scanned_within cfg st st'"
proof (induction ds arbitrary: acc st)
  case Nil
  then show ?case by (cases acc) (simp add: scanned_within_def)
next
  case (Cons d ds)
  obtain all_hvts processing where acc: "acc = (all_hvts, processing)"
    by (cases acc) auto
  show ?case
  proof (cases "processing = [] \<or> should_stop st")
    case True
    then show ?thesis using Cons.prems acc by (auto simp add: scanned_within_def)
  next
    case False
    let ?st0 = "st\<lparr>run_stats := (run_stats st)\<lparr>stats_current_depth := d\<rparr>\<rparr>"
    obtain r1 st1 where f: "source_loop cfg processing (all_hvts, []) ?st0 = (r1, st1)"
      by (cases "source_loop cfg processing (all_hvts, []) ?st0") auto
    have w0: "scanned_within cfg st ?st0"
      by (simp add: scanned_within_def)
    have w1: "scanned_within cfg st st1"
      using source_loop_budget [OF f] w0 by (rule scanned_within_trans [rotated])
    show ?thesis
    proof (cases r1)
      case (Inl e)
      then have "st' = st1" using Cons.prems False acc f by simp
      then show ?thesis using w1 by simp
    next
      case (Inr acc1)
      then have "depth_loop cfg ds acc1 st1 = (r, st')"
        using Cons.prems False acc f by (cases acc1) simp
      from Cons.IH [OF this] w1 show ?thesis by (rule scanned_within_trans [rotated])
    qed
  qed
qed

text \<open>
  The expansion phase, for its part, keeps to the budget: it checks the counter before
  every fetch, so the counter ends at no more than the larger of the budget and the
  value the seed phase left.
\<close>

theorem expansion_phase_within_budget:
  "stats_total_profiles_scanned
     (run_stats (snd (recursive_follower_expansion cfg initial_hvts st)))
   \<le> max (stats_total_profiles_scanned (run_stats st)) (max_profiles (filters cfg))"
  using depth_loop_budget [of cfg "[1..max_depth (filters cfg)]" "(initial_hvts, initial_hvts)" st
      "fst (recursive_follower_expansion cfg initial_hvts st)"
      "snd (recursive_follower_expansion cfg initial_hvts st)"]
  by (simp add: recursive_follower_expansion_def scanned_within_def)

subsection \<open>Orchestrator: deduplication\<close>






subsection \<open>ScrapingEngine: the count parser\<close>

lemma bit_length_lower: "0 < n \<Longrightarrow> 2 ^ (bit_length n - 1) \<le> n"
proof (induction n rule: bit_length.induct)
  case (1 n)
  show ?case
  proof (cases "n div 2 = 0")
    case True
    then have "bit_length (n div 2) = 0" by (simp add: bit_length.simps)
    then have "bit_length n = 1" using 1(2) by (subst bit_length.simps) simp
    then show ?thesis using 1(2) by simp
  next
    case False
    then have pos: "0 < n div 2" by simp
    have ih: "2 ^ (bit_length (n div 2) - 1) \<le> n div 2" using 1(1) 1(2) pos by simp
    have bl: "bit_length n = Suc (bit_length (n div 2))" using 1(2) by (subst bit_length.simps) simp
    have "0 < bit_length (n div 2)" using pos by (subst bit_length.simps) simp
    then have "bit_length n - 1 = Suc (bit_length (n div 2) - 1)" using bl by simp
    then have "(2::nat) ^ (bit_length n - 1) = 2 * 2 ^ (bit_length (n div 2) - 1)" by simp
    also have "\<dots> \<le> 2 * (n div 2)" using ih by simp
    also have "\<dots> \<le> n" by simp
    finally show ?thesis .
  qed
qed

lemma bit_length_pos: "0 < n \<Longrightarrow> 0 < bit_length n"
  by (subst bit_length.simps) simp

lemma bit_length_one: "bit_length (Suc 0) = Suc 0"
  by (simp add: bit_length.simps)

lemma floor_log2_upper:
  assumes "0 < num"
  shows "0 \<le> floor_log2 num 1 + 1" and "2 ^ nat (floor_log2 num 1) \<le> num" 
proof -
  let ?l = "int (bit_length num) - 1"
  have l0: "0 \<le> ?l" using bit_length_pos[OF assms] by simp
  have le: "2 ^ nat ?l \<le> num"
    using bit_length_lower[OF assms] by (simp add: nat_diff_distrib' )
  then have eq: "floor_log2 num 1 = ?l"
    using l0 by (simp add: floor_log2_def bit_length_one Let_def)
  show "0 \<le> floor_log2 num 1 + 1" using eq l0 by simp
  show "2 ^ nat (floor_log2 num 1) \<le> num" using eq le by simp
qed

lemma round_scaled_exact_down:
  "0 \<le> e \<Longrightarrow> round_scaled (q * 2 ^ nat e) 1 e = q"
  by (simp add: round_scaled_def Let_def)

lemma round_scaled_exact_up:
  "e < 0 \<Longrightarrow> round_scaled num 1 e = num * 2 ^ nat (- e)"
  by (simp add: round_scaled_def Let_def)

lemma round_double_exact:
  assumes "s \<le> 0" and "0 < v" and "v < 2 ^ 53"
  shows "\<exists>e. e \<le> 0 \<and> round_double (v * 2 ^ nat (- s)) 1 s = Some (v * 2 ^ nat (- e), e)"
proof -
  define k where "k = nat (- s)"
  define num where "num = v * 2 ^ k"
  define lg where "lg = floor_log2 num 1"
  define e where "e = max (lg + s - 52) (- 1074)"
  have pos: "0 < num" using assms(2) by (simp add: num_def)
  have low: "2 ^ nat lg \<le> num"
    using floor_log2_upper(2) [OF pos] by (simp add: lg_def)
  have up: "num < 2 ^ 53 * 2 ^ k" using assms(3) by (simp add: num_def)
  have "(2::nat) ^ nat lg < 2 ^ 53 * 2 ^ k" by (rule le_less_trans [OF low up])
  then have pw: "(2::nat) ^ nat lg < 2 ^ (53 + k)" by (simp only: power_add)
  have "nat lg < 53 + k" by (rule power_less_imp_less_exp [OF _ pw]) simp
  then have lgs: "lg + s \<le> 52" using assms(1) by (simp add: k_def)
  then have e0: "e \<le> 0" by (simp add: e_def)
  have rs: "round_scaled num 1 (e - s) = v * 2 ^ nat (- e)"
  proof (cases "0 \<le> e - s")
    case True
    have split: "k = nat (- e) + nat (e - s)" using True e0 assms(1) by (simp add: k_def)
    have "num = (v * 2 ^ nat (- e)) * 2 ^ nat (e - s)"
      unfolding num_def by (subst split) (simp only: power_add mult.assoc)
    then show ?thesis using round_scaled_exact_down [OF True, of "v * 2 ^ nat (- e)"] by simp
  next
    case False
    then have neg: "e - s < 0" by simp
    have split: "nat (- e) = k + nat (- (e - s))" using False e0 assms(1) by (simp add: k_def)
    have "num * 2 ^ nat (- (e - s)) = v * 2 ^ nat (- e)"
      unfolding num_def by (subst split) (simp only: power_add mult.assoc)
    then show ?thesis using round_scaled_exact_up [OF neg, of num] by simp
  qed
  have "round_double num 1 s = Some (v * 2 ^ nat (- e), e)"
    unfolding round_double_def Let_def lg_def [symmetric] e_def [symmetric]
    using pos e0 rs by simp
  then show ?thesis using e0 by (auto simp add: num_def k_def)
qed

lemma int_of_float_exact:
  "e \<le> 0 \<Longrightarrow> int_of_float (Finite negative (v * 2 ^ nat (- e)) e) = Inr (if negative then - int v else int v)"
  by (cases "e = 0") (simp_all add: int_of_float_def Let_def)

lemma whole_times_exact:
  assumes "n * k < 2 ^ 53" and "0 < k"
  shows "int_of_float (float_times (double_of_decimal negative n 0) k) = Inr (if negative then - int (n * k) else int (n * k))"
proof (cases "n = 0")
  case True
  then show ?thesis
    by (simp add: double_of_decimal_def round_double_def float_times_def int_of_float_def)
next
  case False
  then have n0: "0 < n" by simp
  have "n \<le> n * k" using assms(2) by simp
  then have nlt: "n < 2 ^ 53" using assms(1) by linarith
  obtain e where e: "e \<le> 0" "round_double n 1 0 = Some (n * 2 ^ nat (- e), e)"
    using round_double_exact[of 0 n] n0 nlt by auto
  then have d: "double_of_decimal negative n 0 = Finite negative (n * 2 ^ nat (- e)) e"
    by (simp add: double_of_decimal_def)
  have nk0: "0 < n * k" using n0 assms(2) by simp
  obtain e' where e': "e' \<le> 0" "round_double ((n * k) * 2 ^ nat (- e)) 1 e = Some ((n * k) * 2 ^ nat (- e'), e')"
    using round_double_exact[OF e(1) nk0 assms(1)] by auto
  have eq: "n * 2 ^ nat (- e) * k = (n * k) * 2 ^ nat (- e)" by (simp add: mult_ac)
  have ft: "round_double (n * 2 ^ nat (- e) * k) 1 e = Some ((n * k) * 2 ^ nat (- e'), e')"
    unfolding eq by (rule e'(2))
  have "float_times (double_of_decimal negative n 0) k = Finite negative ((n * k) * 2 ^ nat (- e')) e'"
    unfolding float_times_def d pyfloat.case ft by simp
  then show ?thesis using int_of_float_exact[OF e'(1)] by simp
qed

lemma take_digits_all: "list_all is_digit ds \<Longrightarrow> take_digits ds = (ds, [])"
proof (induction ds)
  case Nil
  then show ?case by simp
next
  case (Cons c cs)
  then have c: "is_digit c" and ih: "take_digits cs = (cs, [])" by simp_all
  have nu: "\<not> is_digit CHR ''_''" by (simp add: is_digit_def)
  show ?case
  proof (cases cs)
    case Nil
    then show ?thesis using c by simp
  next
    case outer: (Cons u r)
    then have u: "u \<noteq> CHR ''_''" using Cons.prems nu by auto
    show ?thesis
    proof (cases r)
      case Nil
      then show ?thesis using c ih outer by simp
    next
      case (Cons d rest)
      then show ?thesis using c ih outer u by simp
    qed
  qed
qed

lemma digit_not_space: "is_digit c \<Longrightarrow> \<not> is_space c"
  by (auto simp add: is_digit_def is_space_def)

lemma str_strip_digits: "is_digits ds \<Longrightarrow> str_strip ds = ds"
proof -
  assume a: "is_digits ds"
  then obtain c cs where ds: "ds = c # cs" by (cases ds) (auto simp add: is_digits_def)
  have h: "\<not> is_space c" using a ds digit_not_space by (simp add: is_digits_def)
  have d1: "dropWhile is_space ds = ds" using ds h by simp
  have "rev ds \<noteq> []" using ds by simp
  then obtain l ls where r: "rev ds = l # ls" by (cases "rev ds") auto
  then have "l \<in> set ds" by (metis list.set_intros(1) set_rev)
  then have "\<not> is_space l" using a digit_not_space by (auto simp add: is_digits_def list_all_iff)
  then have "dropWhile is_space (rev ds) = rev ds" using r by simp
  then show ?thesis using d1 by (simp add: str_strip_def)
qed

lemma take_sign_digits: "is_digits ds \<Longrightarrow> take_sign ds = (False, ds)"
  by (cases ds) (auto simp add: is_digits_def is_digit_def)

lemma lower_char_digit: "is_digit c \<Longrightarrow> lower_char c = c"
proof -
  have "\<forall>d \<in> set ''0123456789''. lower_char d = d"
    by (simp add: lower_char_def)
  then show "is_digit c \<Longrightarrow> lower_char c = c"
    unfolding is_digit_def by blast
qed

lemma str_lower_digits: "list_all is_digit ds \<Longrightarrow> str_lower ds = ds"
  by (induction ds) (simp_all add: str_lower_def lower_char_digit)

lemma str_remove_absent: "c \<notin> set s \<Longrightarrow> str_remove c s = s"
  by (induction s) (auto simp add: str_remove_def)

lemma py_int_digits:
  "is_digits ds \<Longrightarrow> length ds \<le> 4300 \<Longrightarrow> py_int ds = Some (int (nat_of_digits ds))"
  by (simp add: py_int_def str_strip_digits take_sign_digits take_digits_all is_digits_def int_max_str_digits_def)

lemma py_float_digits:
  assumes "is_digits ds"
  shows "py_float ds = Some (double_of_decimal False (nat_of_digits ds) 0)"
proof -
  have all: "list_all is_digit ds" and ne: "ds \<noteq> []" using assms by (simp_all add: is_digits_def)
  have "\<not> list_all is_digit ''inf''" "\<not> list_all is_digit ''infinity''" "\<not> list_all is_digit ''nan''"
    by (simp_all add: is_digit_def)
  then have "ds \<noteq> ''inf''" "ds \<noteq> ''infinity''" "ds \<noteq> ''nan''" using all by auto
  then show ?thesis
    using ne
    by (simp add: py_float_def str_strip_digits[OF assms] take_sign_digits[OF assms]
        str_lower_digits[OF all] parse_floatnumber_def take_digits_all[OF all])
qed

lemma digits_no_letter:
  "is_digits ds \<Longrightarrow> CHR ''K'' \<notin> set ds \<and> CHR ''M'' \<notin> set ds"
proof -
  assume "is_digits ds"
  then have "\<forall>c \<in> set ds. is_digit c" by (simp add: is_digits_def list_all_iff)
  moreover have "\<not> is_digit CHR ''K''" "\<not> is_digit CHR ''M''" by (simp_all add: is_digit_def)
  ultimately show ?thesis by blast
qed

lemmas parse_count_eval =
  parse_count_def count_or_zero_def py_float_def py_int_def str_remove_def str_strip_def
  is_space_def is_digit_def parse_floatnumber_def parse_exponent_def double_of_decimal_def
  round_double_def round_scaled_def floor_log2_def bit_length.simps float_times_def
  int_of_float_def nat_of_digits_def digit_value_def str_lower_def lower_char_def
  int_max_str_digits_def Let_def

lemma parse_count_examples:
  "parse_count ''12.3K'' = Inr 12300" "parse_count ''1.1M'' = Inr 1100000"
  "parse_count ''450'' = Inr 450" "parse_count ''N/A'' = Inr 0"
  by (simp_all add: parse_count_eval)

text \<open>
  \<open>int\<close> strips a trailing no-break space, as it does the ASCII blanks, but not the
  separator \<open>0x1C\<close>.
\<close>

lemma parse_count_latin1_space:
  "parse_count (''12'' @ [CHR 0xA0]) = Inr 12" "parse_count (''12'' @ [CHR 0x1C]) = Inr 0"
  by (simp_all add: parse_count_eval)

text \<open>
  C6: \<open>parse_count\<close> computes the product in double precision and \<open>int\<close> truncates it, so
  a count with a suffix can come out one below its value times 1,000 or 1,000,000.  The
  literal \<open>4.1\<close> has the value 41/10, but the double nearest to it lies below it, the
  product with 1000000 rounds to a double below 4100000, and \<open>4.1M\<close> is parsed as
  4099999.  Likewise \<open>32.3K\<close> is parsed as 32299.
\<close>

theorem parse_count_truncates_product:
  "parse_floatnumber ''4.1'' = Some (41, - 1)
   \<and> parse_count ''4.1M'' = Inr 4099999
   \<and> parse_count ''4.1M'' \<noteq> Inr 4100000
   \<and> parse_count ''32.3K'' = Inr 32299"
  by (simp add: parse_count_eval)

text \<open>
  What the parser does deliver: the four examples give 12300, 1100000, 450 and 0; with
  commas and spaces removed, a string of digits (at most 4300 of them) maps to its integer
  value; a whole number with \<open>K\<close> (with \<open>M\<close>) maps to 1,000 times (1,000,000 times) its
  value as long as that product is below \<open>2^53\<close>; and a string that \<open>float\<close> (respectively
  \<open>int\<close>) rejects maps to 0.
\<close>

theorem parse_count_values:
  "parse_count ''12.3K'' = Inr 12300 \<and> parse_count ''1.1M'' = Inr 1100000
   \<and> parse_count ''450'' = Inr 450 \<and> parse_count ''N/A'' = Inr 0
   \<and> (is_digits ds \<and> length ds \<le> 4300
        \<and> str_remove CHR '' '' (str_remove CHR '','' s) = ds
      \<longrightarrow> parse_count s = Inr (int (nat_of_digits ds)))
   \<and> (is_digits ds \<and> str_remove CHR '' '' (str_remove CHR '','' s) = t
        \<and> CHR ''K'' \<in> set t \<and> str_remove CHR ''K'' t = ds
        \<and> nat_of_digits ds * 1000 < 2 ^ 53
      \<longrightarrow> parse_count s = Inr (int (nat_of_digits ds) * 1000))
   \<and> (is_digits ds \<and> str_remove CHR '' '' (str_remove CHR '','' s) = t
        \<and> CHR ''K'' \<notin> set t \<and> CHR ''M'' \<in> set t \<and> str_remove CHR ''M'' t = ds
        \<and> nat_of_digits ds * 1000000 < 2 ^ 53
      \<longrightarrow> parse_count s = Inr (int (nat_of_digits ds) * 1000000))
   \<and> (str_remove CHR '' '' (str_remove CHR '','' s) = t
        \<and> CHR ''K'' \<in> set t \<and> py_float (str_remove CHR ''K'' t) = None
      \<longrightarrow> parse_count s = Inr 0)
   \<and> (str_remove CHR '' '' (str_remove CHR '','' s) = t
        \<and> CHR ''K'' \<notin> set t \<and> CHR ''M'' \<in> set t \<and> py_float (str_remove CHR ''M'' t) = None
      \<longrightarrow> parse_count s = Inr 0)
   \<and> (str_remove CHR '' '' (str_remove CHR '','' s) = t
        \<and> CHR ''K'' \<notin> set t \<and> CHR ''M'' \<notin> set t \<and> py_int t = None
      \<longrightarrow> parse_count s = Inr 0)"
proof (intro conjI impI)
  show "parse_count ''12.3K'' = Inr 12300" "parse_count ''1.1M'' = Inr 1100000"
    "parse_count ''450'' = Inr 450" "parse_count ''N/A'' = Inr 0"
    by (rule parse_count_examples)+
next
  assume a: "is_digits ds \<and> length ds \<le> 4300
        \<and> str_remove CHR '' '' (str_remove CHR '','' s) = ds"
  then show "parse_count s = Inr (int (nat_of_digits ds))"
    using digits_no_letter [of ds] py_int_digits [of ds]
    by (simp add: parse_count_def count_or_zero_def)
next
  assume a: "is_digits ds \<and> str_remove CHR '' '' (str_remove CHR '','' s) = t
        \<and> CHR ''K'' \<in> set t \<and> str_remove CHR ''K'' t = ds
        \<and> nat_of_digits ds * 1000 < 2 ^ 53"
  then have "int_of_float (float_times (double_of_decimal False (nat_of_digits ds) 0) 1000)
      = Inr (int (nat_of_digits ds * 1000))"
    using whole_times_exact [of "nat_of_digits ds" 1000 False] by simp
  then show "parse_count s = Inr (int (nat_of_digits ds) * 1000)"
    using a py_float_digits [of ds]
    by (simp add: parse_count_def count_or_zero_def)
next
  assume a: "is_digits ds \<and> str_remove CHR '' '' (str_remove CHR '','' s) = t
        \<and> CHR ''K'' \<notin> set t \<and> CHR ''M'' \<in> set t \<and> str_remove CHR ''M'' t = ds
        \<and> nat_of_digits ds * 1000000 < 2 ^ 53"
  then have "int_of_float (float_times (double_of_decimal False (nat_of_digits ds) 0) 1000000)
      = Inr (int (nat_of_digits ds * 1000000))"
    using whole_times_exact [of "nat_of_digits ds" 1000000 False] by simp
  then show "parse_count s = Inr (int (nat_of_digits ds) * 1000000)"
    using a py_float_digits [of ds]
    by (simp add: parse_count_def count_or_zero_def)
next
  assume "str_remove CHR '' '' (str_remove CHR '','' s) = t
        \<and> CHR ''K'' \<in> set t \<and> py_float (str_remove CHR ''K'' t) = None"
  then show "parse_count s = Inr 0"
    by (simp add: parse_count_def count_or_zero_def)
next
  assume "str_remove CHR '' '' (str_remove CHR '','' s) = t
        \<and> CHR ''K'' \<notin> set t \<and> CHR ''M'' \<in> set t \<and> py_float (str_remove CHR ''M'' t) = None"
  then show "parse_count s = Inr 0"
    by (simp add: parse_count_def count_or_zero_def)
next
  assume "str_remove CHR '' '' (str_remove CHR '','' s) = t
        \<and> CHR ''K'' \<notin> set t \<and> CHR ''M'' \<notin> set t \<and> py_int t = None"
  then show "parse_count s = Inr 0"
    by (simp add: parse_count_def count_or_zero_def)
qed

theorem parse_count_values_witness:
  "is_digits ''1234'' \<and> length ''1234'' \<le> 4300
   \<and> str_remove CHR '' '' (str_remove CHR '','' ''1,234'') = ''1234''
   \<and> parse_count ''1,234'' = Inr 1234
   \<and> is_digits ''12'' \<and> str_remove CHR '' '' (str_remove CHR '','' ''12 K'') = ''12K''
   \<and> CHR ''K'' \<in> set ''12K'' \<and> str_remove CHR ''K'' ''12K'' = ''12''
   \<and> nat_of_digits ''12'' * 1000 < 2 ^ 53
   \<and> parse_count ''12 K'' = Inr 12000
   \<and> is_digits ''3'' \<and> str_remove CHR '' '' (str_remove CHR '','' ''3M'') = ''3M''
   \<and> CHR ''K'' \<notin> set ''3M'' \<and> CHR ''M'' \<in> set ''3M'' \<and> str_remove CHR ''M'' ''3M'' = ''3''
   \<and> nat_of_digits ''3'' * 1000000 < 2 ^ 53
   \<and> parse_count ''3M'' = Inr 3000000
   \<and> py_float (str_remove CHR ''K'' ''abcK'') = None \<and> parse_count ''abcK'' = Inr 0
   \<and> py_float (str_remove CHR ''M'' ''x.yM'') = None \<and> parse_count ''x.yM'' = Inr 0
   \<and> py_int ''12k'' = None \<and> parse_count ''12k'' = Inr 0"
proof -
  have d: "is_digits ''1234''" "is_digits ''12''" "is_digits ''3''"
    by (simp_all add: is_digits_def is_digit_def)
  have v: "nat_of_digits ''1234'' = 1234" "nat_of_digits ''12'' = 12" "nat_of_digits ''3'' = 3"
    by (simp_all add: nat_of_digits_def digit_value_def)
  have r: "str_remove CHR '' '' (str_remove CHR '','' ''1,234'') = ''1234''"
    "str_remove CHR '' '' (str_remove CHR '','' ''12 K'') = ''12K''"
    "str_remove CHR ''K'' ''12K'' = ''12''"
    "str_remove CHR '' '' (str_remove CHR '','' ''3M'') = ''3M''"
    "str_remove CHR ''M'' ''3M'' = ''3''"
    "str_remove CHR '' '' (str_remove CHR '','' ''abcK'') = ''abcK''"
    "str_remove CHR '' '' (str_remove CHR '','' ''x.yM'') = ''x.yM''"
    "str_remove CHR '' '' (str_remove CHR '','' ''12k'') = ''12k''"
    by (simp_all add: str_remove_def)
  have f: "py_float (str_remove CHR ''K'' ''abcK'') = None"
    "py_float (str_remove CHR ''M'' ''x.yM'') = None" "py_int ''12k'' = None"
    by (simp_all add: parse_count_eval)
  have k: "CHR ''K'' \<in> set ''12K''" "CHR ''K'' \<notin> set ''3M''" "CHR ''M'' \<in> set ''3M''"
    "CHR ''K'' \<in> set ''abcK''" "CHR ''K'' \<notin> set ''x.yM''" "CHR ''M'' \<in> set ''x.yM''"
    "CHR ''K'' \<notin> set ''12k''" "CHR ''M'' \<notin> set ''12k''"
    by simp_all
  show ?thesis
    using d v r f k
      parse_count_values [where s = "''1,234''" and ds = "''1234''" and t = "''1234''"]
      parse_count_values [where s = "''12 K''" and ds = "''12''" and t = "''12K''"]
      parse_count_values [where s = "''3M''" and ds = "''3''" and t = "''3M''"]
      parse_count_values [where s = "''abcK''" and ds = "''3''" and t = "''abcK''"]
      parse_count_values [where s = "''x.yM''" and ds = "''3''" and t = "''x.yM''"]
      parse_count_values [where s = "''12k''" and ds = "''3''" and t = "''12k''"]
    by simp
qed

text \<open>
  \<open>parse_count\<close> catches \<open>ValueError\<close> and \<open>TypeError\<close> only: on an infinite float
  \<open>int\<close> raises \<open>OverflowError\<close>, which leaves the function.
\<close>

theorem parse_count_overflow_uncaught:
  "parse_count ''infK'' = Inl OverflowError"
  by (simp add: parse_count_eval)

end
